theory Spec2Isabelle
  imports Main
begin

section \<open>JavaScript values the facilitator computes with\<close>

text \<open>
  The facilitator (\<^verbatim>\<open>src/unnamed/part_000\<close>, the module the bundled test imports as
  \<^verbatim>\<open>./facilitator\<close>) is TypeScript. A JavaScript string is modelled as a \<^typ>\<open>string\<close>
  whose characters are code units below 256, so \<^const>\<open>length\<close> is \<^verbatim>\<open>.length\<close> on
  such strings. A \<^verbatim>\<open>bigint\<close> is an \<^typ>\<open>int\<close>. A thrown exception (a rejected promise for
  the asynchronous calls) is the \<open>Inl\<close> branch of a sum.
\<close>

datatype error =
    UnsupportedNetwork string
  | TypeError
  | InvalidAddressError string
  | SyntaxError string
  | ClientError string

definition startsWith :: "string \<Rightarrow> string \<Rightarrow> bool" where
  "startsWith s p = (take (length p) s = p)"

subsection \<open>\<^verbatim>\<open>BigInt(string)\<close>\<close>

text \<open>
  \<^verbatim>\<open>BigInt(s)\<close> on a string follows ECMAScript's StringToBigInt: white space is trimmed,
  the empty string is \<open>0n\<close>, a \<^verbatim>\<open>0x\<close>, \<^verbatim>\<open>0o\<close> or \<^verbatim>\<open>0b\<close> prefix selects the radix
  (no sign allowed), otherwise an optional sign is followed by decimal digits; anything
  else throws a SyntaxError.
\<close>

definition isWhiteSpace :: "char \<Rightarrow> bool" where
  "isWhiteSpace c = ((of_char c :: nat) \<in> {9, 10, 11, 12, 13, 32, 160})"

definition trim :: "string \<Rightarrow> string" where
  "trim s = rev (dropWhile isWhiteSpace (rev (dropWhile isWhiteSpace s)))"

definition digitValue :: "char \<Rightarrow> nat option" where
  "digitValue c =
     (let n = (of_char c :: nat) in
      if 48 \<le> n \<and> n \<le> 57 then Some (n - 48)
      else if 97 \<le> n \<and> n \<le> 122 then Some (n - 87)
      else if 65 \<le> n \<and> n \<le> 90 then Some (n - 55)
      else None)"

fun digitsValue :: "nat \<Rightarrow> int \<Rightarrow> string \<Rightarrow> int option" where
  "digitsValue radix acc [] = Some acc"
| "digitsValue radix acc (c # cs) =
     (case digitValue c of
        None \<Rightarrow> None
      | Some d \<Rightarrow> if d < radix then digitsValue radix (acc * int radix + int d) cs else None)"

definition parseDigits :: "nat \<Rightarrow> string \<Rightarrow> int option" where
  "parseDigits radix s = (if s = [] then None else digitsValue radix 0 s)"

definition StringToBigInt :: "string \<Rightarrow> int option" where
  "StringToBigInt s =
     (let t = trim s in
      if t = [] then Some 0
      else if startsWith t ''0x'' \<or> startsWith t ''0X'' then parseDigits 16 (drop 2 t)
      else if startsWith t ''0o'' \<or> startsWith t ''0O'' then parseDigits 8 (drop 2 t)
      else if startsWith t ''0b'' \<or> startsWith t ''0B'' then parseDigits 2 (drop 2 t)
      else if startsWith t ''+'' then parseDigits 10 (drop 1 t)
      else if startsWith t ''-'' then map_option uminus (parseDigits 10 (drop 1 t))
      else parseDigits 10 t)"

definition BigInt :: "string \<Rightarrow> error + int" where
  "BigInt s = (case StringToBigInt s of None \<Rightarrow> Inl (SyntaxError s) | Some n \<Rightarrow> Inr n)"

subsection \<open>\<^verbatim>\<open>Number(bigint)\<close>\<close>

text \<open>
  \<^verbatim>\<open>Number(v)\<close> on a bigint is the nearest double (ties to even), infinite from
  \<open>2^1024\<close> on; it is \<open>v\<close> itself up to \<open>2^53\<close> in absolute value. The numbers that
  reach the contract call are integers or infinite.
\<close>

datatype js_number = Num int | PosInfinity | NegInfinity

fun bitLength :: "nat \<Rightarrow> nat" where
  "bitLength n = (if n = 0 then 0 else Suc (bitLength (n div 2)))"

declare bitLength.simps [simp del]

definition roundToDouble :: "nat \<Rightarrow> nat" where
  "roundToDouble a =
     (let e = bitLength a - 53; q = a div 2 ^ e; r = a mod 2 ^ e; half = 2 ^ (e - 1) in
      if e = 0 then a
      else if half < r \<or> (r = half \<and> odd q) then (q + 1) * 2 ^ e else q * 2 ^ e)"

definition Number_of_BigInt :: "int \<Rightarrow> js_number" where
  "Number_of_BigInt v =
     (if \<bar>v\<bar> \<le> 2 ^ 53 then Num v
      else let m = roundToDouble (nat \<bar>v\<bar>) in
        if 2 ^ 1024 \<le> m then (if v < 0 then NegInfinity else PosInfinity)
        else Num (if v < 0 then - int m else int m))"

subsection \<open>viem's \<^verbatim>\<open>getAddress\<close>\<close>

text \<open>
  Modelled from the spec: \<^verbatim>\<open>getAddress\<close> is imported from the viem library, which is not
  under \<^verbatim>\<open>src/\<close>. The spec calls it address normalisation, "case-insensitive /
  checksum-equal": an address is \<^verbatim>\<open>0x\<close> and forty hexadecimal digits (anything else
  throws), and its normal form is the EIP-55 checksum form, the lower-cased digits with
  digit \<open>i\<close> upper-cased when nibble \<open>i\<close> of the Keccak-256 hash of the lower-cased digits
  is at least 8. The hash is a parameter: its nibbles are given by a function.
\<close>

definition toLowerCase :: "char \<Rightarrow> char" where
  "toLowerCase c =
     (let n = (of_char c :: nat) in if 65 \<le> n \<and> n \<le> 90 then char_of (n + 32) else c)"

definition toUpperCase :: "char \<Rightarrow> char" where
  "toUpperCase c =
     (let n = (of_char c :: nat) in if 97 \<le> n \<and> n \<le> 122 then char_of (n - 32) else c)"

definition isHexDigit :: "char \<Rightarrow> bool" where
  "isHexDigit c = (c \<in> set ''0123456789abcdefABCDEF'')"

definition isAddress :: "string \<Rightarrow> bool" where
  "isAddress a = (length a = 42 \<and> take 2 a = ''0x'' \<and> list_all isHexDigit (drop 2 a))"

definition checksumAddress :: "(string \<Rightarrow> nat \<Rightarrow> nat) \<Rightarrow> string \<Rightarrow> string" where
  "checksumAddress keccak a =
     (let hexAddress = map toLowerCase (drop 2 a) in
      ''0x'' @ map (\<lambda>i. if 8 \<le> keccak hexAddress i then toUpperCase (hexAddress ! i)
                         else hexAddress ! i) [0..<length hexAddress])"

definition getAddress :: "(string \<Rightarrow> nat \<Rightarrow> nat) \<Rightarrow> string \<Rightarrow> error + string" where
  "getAddress keccak a =
     (if isAddress a then Inr (checksumAddress keccak a) else Inl (InvalidAddressError a))"

section \<open>Data model\<close>

text \<open>
  The types of \<^verbatim>\<open>types/verify\<close>, with the fields \<^verbatim>\<open>verify\<close> and \<^verbatim>\<open>settle\<close> read.
  \<^verbatim>\<open>from\<close>, \<^verbatim>\<open>to\<close> and \<^verbatim>\<open>value\<close> of the authorization carry the prefix \<open>auth_\<close>; the
  requirements' \<^verbatim>\<open>scheme\<close> and \<^verbatim>\<open>network\<close> carry \<open>req_\<close>.
\<close>

record Authorization =
  auth_from :: string
  auth_to :: string
  auth_value :: string
  validAfter :: string
  validBefore :: string
  nonce :: string

record ExactEvmPayload =
  signature :: string
  authorization :: Authorization

record PaymentPayload =
  x402Version :: int
  scheme :: string
  network :: string
  payload :: ExactEvmPayload

record Extra =
  extra_name :: "string option"
  extra_version :: "string option"

record PaymentRequirements =
  req_scheme :: string
  req_network :: string
  maxAmountRequired :: string
  payTo :: string
  asset :: string
  extra :: "Extra option"

datatype ErrorReason =
    unsupported_scheme
  | invalid_network
  | invalid_exact_evm_payload_signature
  | invalid_exact_evm_payload_recipient_mismatch
  | invalid_exact_evm_payload_authorization_valid_before
  | invalid_exact_evm_payload_authorization_valid_after
  | insufficient_funds
  | invalid_exact_evm_payload_authorization_value
  | invalid_exact_evm_payload_undeployed_smart_wallet
  | invalid_scheme
  | invalid_transaction_state

record VerifyResponse =
  isValid :: bool
  invalidReason :: "ErrorReason option"
  payer :: string

record SettleResponse =
  success :: bool
  errorReason :: "ErrorReason option"
  transaction :: string
  settle_network :: string
  settle_payer :: string

text \<open>
  Modelled from the spec: the constant \<^verbatim>\<open>SCHEME\<close> that verify imports from
  \<^verbatim>\<open>schemes/exact\<close> is not under \<^verbatim>\<open>src/\<close>. The spec calls it the exact-scheme
  identifier; the payloads of the bundled test, which verify, carry \<^verbatim>\<open>exact\<close>.
\<close>

definition SCHEME :: string where
  "SCHEME = ''exact''"

section \<open>The collaborators\<close>

record Domain =
  name :: string
  version :: string
  chainId :: int
  verifyingContract :: string

record TypedData =
  td_address :: string
  td_domain :: Domain
  td_message :: Authorization
  td_signature :: string

record ChainConfig =
  usdcAddress :: string
  usdcName :: string

record Erc6492 =
  erc6492_address :: "string option"
  erc6492_data :: "string option"
  erc6492_signature :: string

record ParsedSignature =
  sig_r :: string
  sig_s :: string
  sig_v :: "int option"
  yParity :: int

datatype TransferArgs =
    BytesSignature string string int int int string string
  | ScalarTriple string string int int int string js_number string string

record ContractCall =
  call_address :: string
  functionName :: string
  args :: TransferArgs

datatype ReceiptStatus = Success | Reverted

text \<open>
  Everything \<^verbatim>\<open>verify\<close> and \<^verbatim>\<open>settle\<close> call that is not under \<^verbatim>\<open>src/\<close>: the chain
  client (the \<^verbatim>\<open>client\<close> of verify, the \<^verbatim>\<open>wallet\<close> of settle), the helpers of
  \<^verbatim>\<open>shared\<close> and of viem, the configuration table and the clock. Each may throw.
  \<^verbatim>\<open>Date.now()\<close> and \<^verbatim>\<open>getCode\<close> are read more than once in one call and may answer
  differently each time, so they take the number of earlier reads: \<open>Date_now client 0\<close>
  is the clock at the valid-before check and \<open>Date_now client 1\<close> at the valid-after
  check; \<open>getCode client 0\<close> is the read of verify and \<open>getCode client 1\<close> the read
  of settle after its re-verification. \<open>Date_now\<close> is in milliseconds; for an integer
  \<open>ms\<close> within the range of a Date, \<^verbatim>\<open>Math.floor(ms / 1000)\<close> is \<open>ms div 1000\<close>.
  \<open>yParity\<close> of a parsed signature is a JavaScript number, modelled as an integer.
\<close>

record env =
  getNetworkId :: "string \<Rightarrow> error + int"
  config :: "int \<Rightarrow> ChainConfig option"
  getVersion :: "error + string"
  verifyTypedData :: "TypedData \<Rightarrow> error + bool"
  keccak256_nibble :: "string \<Rightarrow> nat \<Rightarrow> nat"
  Date_now :: "nat \<Rightarrow> int"
  getERC20Balance :: "string \<Rightarrow> string \<Rightarrow> error + int"
  getCode :: "nat \<Rightarrow> string \<Rightarrow> error + string option"
  parseErc6492Signature :: "string \<Rightarrow> error + Erc6492"
  parseSignature :: "string \<Rightarrow> error + ParsedSignature"
  writeContract :: "ContractCall \<Rightarrow> error + string"
  waitForTransactionReceipt :: "string \<Rightarrow> error + ReceiptStatus"

text \<open>The calls made on the chain client, in the order they are awaited.\<close>

datatype event =
    GetVersion
  | VerifyTypedData TypedData
  | GetERC20Balance string string
  | GetCode string
  | WriteContract ContractCall
  | WaitForTransactionReceipt string

definition logged :: "event list \<Rightarrow> event list \<times> 'a \<Rightarrow> event list \<times> 'a" where
  "logged l k = (l @ fst k, snd k)"

section \<open>SignatureShapeClassifier\<close>

text \<open>
  Lines 178--180 of verify and 257--259 of settle, the same three lines:
  \<^verbatim>\<open>signature.startsWith("0x") ? signature.length - 2 : signature.length\<close> and
  \<^verbatim>\<open>isSmartWallet = signatureLength > 130\<close>. The code has the boolean only; the
  names EOA and ContractWallet for its two values are the specification's.
\<close>

definition signatureLength :: "string \<Rightarrow> nat" where
  "signatureLength sig = (if startsWith sig ''0x'' then length sig - 2 else length sig)"

definition isSmartWallet :: "string \<Rightarrow> bool" where
  "isSmartWallet sig = (130 < signatureLength sig)"

datatype SignatureShape = EOA | ContractWallet

definition SignatureShapeClassifier :: "string \<Rightarrow> SignatureShape" where
  "SignatureShapeClassifier sig = (if isSmartWallet sig then ContractWallet else EOA)"

section \<open>verify\<close>

definition reject :: "ErrorReason \<Rightarrow> string \<Rightarrow> VerifyResponse" where
  "reject reason p = \<lparr>isValid = False, invalidReason = Some reason, payer = p\<rparr>"

definition accept :: "string \<Rightarrow> VerifyResponse" where
  "accept p = \<lparr>isValid = True, invalidReason = None, payer = p\<rparr>"

text \<open>The \<^verbatim>\<open>try\<close> block of lines 82--86; its \<^verbatim>\<open>catch\<close> is in \<open>verify\<close>.\<close>

definition resolveDomain ::
  "env \<Rightarrow> PaymentPayload \<Rightarrow> PaymentRequirements \<Rightarrow> event list \<times> (error + Domain)" where
  "resolveDomain client paymentPayload paymentRequirements =
     (case getNetworkId client (network paymentPayload) of
        Inl e \<Rightarrow> ([], Inl e)
      | Inr cid \<Rightarrow>
          (case (case Option.bind (extra paymentRequirements) extra_name of
                   Some n \<Rightarrow> Inr n
                 | None \<Rightarrow>
                     (case config client cid of
                        None \<Rightarrow> Inl TypeError
                      | Some c \<Rightarrow> Inr (usdcName c))) of
             Inl e \<Rightarrow> ([], Inl e)
           | Inr nm \<Rightarrow>
               (case Option.bind (extra paymentRequirements) extra_version of
                  Some ver \<Rightarrow>
                    ([], Inr \<lparr>name = nm, version = ver, chainId = cid,
                              verifyingContract = asset paymentRequirements\<rparr>)
                | None \<Rightarrow>
                    logged [GetVersion]
                      (case getVersion client of
                         Inl e \<Rightarrow> ([], Inl e)
                       | Inr ver \<Rightarrow>
                           ([], Inr \<lparr>name = nm, version = ver, chainId = cid,
                                     verifyingContract = asset paymentRequirements\<rparr>)))))"

definition permitTypedData :: "Domain \<Rightarrow> ExactEvmPayload \<Rightarrow> TypedData" where
  "permitTypedData d exactEvmPayload =
     \<lparr>td_address = auth_from (authorization exactEvmPayload),
      td_domain = d,
      td_message = authorization exactEvmPayload,
      td_signature = signature exactEvmPayload\<rparr>"

definition emptyBytecode :: "string option \<Rightarrow> bool" where
  "emptyBytecode bytecode = (case bytecode of None \<Rightarrow> True | Some b \<Rightarrow> b = [] \<or> b = ''0x'')"

definition truthy :: "string option \<Rightarrow> bool" where
  "truthy v = (case v of None \<Rightarrow> False | Some s \<Rightarrow> s \<noteq> [])"

definition hasDeploymentInfo :: "Erc6492 \<Rightarrow> bool" where
  "hasDeploymentInfo erc6492Data =
     (truthy (erc6492_address erc6492Data) \<and> truthy (erc6492_data erc6492Data))"

text \<open>
  \<^verbatim>\<open>verify\<close> is one function of 150 lines, a chain of checks that each return early.
  It is written here in five parts, each calling the next: lines 67--124 are \<open>verify\<close>
  itself, lines 126--133 \<open>verifyRecipient\<close>, lines 135--153 \<open>verifyDeadline\<close>,
  lines 154--174 \<open>verifyFunds\<close> and lines 176--211 \<open>verifyWalletDeployed\<close>. The last
  part comes first.
\<close>

definition verifyWalletDeployed ::
  "env \<Rightarrow> ExactEvmPayload \<Rightarrow> event list \<times> (error + VerifyResponse)" where
  "verifyWalletDeployed client exactEvmPayload =
     (let p = auth_from (authorization exactEvmPayload) in
      if isSmartWallet (signature exactEvmPayload)
      then
        logged [GetCode p]
          (case getCode client 0 p of
             Inl e \<Rightarrow> ([], Inl e)
           | Inr bytecode \<Rightarrow>
               (if emptyBytecode bytecode
                then
                  (case parseErc6492Signature client (signature exactEvmPayload) of
                     Inl e \<Rightarrow> ([], Inl e)
                   | Inr erc6492Data \<Rightarrow>
                       (if \<not> hasDeploymentInfo erc6492Data
                        then ([], Inr (reject invalid_exact_evm_payload_undeployed_smart_wallet p))
                        else ([], Inr (accept p))))
                else ([], Inr (accept p))))
      else ([], Inr (accept p)))"

definition verifyFunds ::
  "env \<Rightarrow> ExactEvmPayload \<Rightarrow> PaymentRequirements \<Rightarrow> string
     \<Rightarrow> event list \<times> (error + VerifyResponse)" where
  "verifyFunds client exactEvmPayload paymentRequirements erc20Address =
     (let auth = authorization exactEvmPayload; p = auth_from auth in
      logged [GetERC20Balance erc20Address p]
        (case getERC20Balance client erc20Address p of
           Inl e \<Rightarrow> ([], Inl e)
         | Inr balance \<Rightarrow>
             (case BigInt (maxAmountRequired paymentRequirements) of
                Inl e \<Rightarrow> ([], Inl e)
              | Inr required \<Rightarrow>
                  (if balance < required then ([], Inr (reject insufficient_funds p))
                   else
                     (case BigInt (auth_value auth) of
                        Inl e \<Rightarrow> ([], Inl e)
                      | Inr offered \<Rightarrow>
                          (case BigInt (maxAmountRequired paymentRequirements) of
                             Inl e \<Rightarrow> ([], Inl e)
                           | Inr required' \<Rightarrow>
                               (if offered < required'
                                then ([], Inr (reject
                                        invalid_exact_evm_payload_authorization_value p))
                                else verifyWalletDeployed client exactEvmPayload)))))))"

definition verifyDeadline ::
  "env \<Rightarrow> ExactEvmPayload \<Rightarrow> PaymentRequirements \<Rightarrow> string
     \<Rightarrow> event list \<times> (error + VerifyResponse)" where
  "verifyDeadline client exactEvmPayload paymentRequirements erc20Address =
     (let auth = authorization exactEvmPayload; p = auth_from auth in
      case BigInt (validBefore auth) of
        Inl e \<Rightarrow> ([], Inl e)
      | Inr vb \<Rightarrow>
          (if vb < Date_now client 0 div 1000 + 6
           then ([], Inr (reject invalid_exact_evm_payload_authorization_valid_before p))
           else
             (case BigInt (validAfter auth) of
                Inl e \<Rightarrow> ([], Inl e)
              | Inr va \<Rightarrow>
                  (if Date_now client 1 div 1000 < va
                   then ([], Inr (reject invalid_exact_evm_payload_authorization_valid_after p))
                   else verifyFunds client exactEvmPayload paymentRequirements erc20Address))))"

definition verifyRecipient ::
  "env \<Rightarrow> ExactEvmPayload \<Rightarrow> PaymentRequirements \<Rightarrow> string
     \<Rightarrow> event list \<times> (error + VerifyResponse)" where
  "verifyRecipient client exactEvmPayload paymentRequirements erc20Address =
     (let auth = authorization exactEvmPayload; p = auth_from auth in
      case getAddress (keccak256_nibble client) (auth_to auth) of
        Inl e \<Rightarrow> ([], Inl e)
      | Inr toAddress \<Rightarrow>
          (case getAddress (keccak256_nibble client) (payTo paymentRequirements) of
             Inl e \<Rightarrow> ([], Inl e)
           | Inr payToAddress \<Rightarrow>
               (if toAddress \<noteq> payToAddress
                then ([], Inr (reject invalid_exact_evm_payload_recipient_mismatch p))
                else verifyDeadline client exactEvmPayload paymentRequirements erc20Address)))"

definition verify ::
  "env \<Rightarrow> PaymentPayload \<Rightarrow> PaymentRequirements \<Rightarrow> event list \<times> (error + VerifyResponse)" where
  "verify client paymentPayload paymentRequirements =
     (let exactEvmPayload = payload paymentPayload;
          p = auth_from (authorization exactEvmPayload)
      in
      if scheme paymentPayload \<noteq> SCHEME \<or> req_scheme paymentRequirements \<noteq> SCHEME
      then ([], Inr (reject unsupported_scheme p))
      else
        (case resolveDomain client paymentPayload paymentRequirements of
           (l, Inl e) \<Rightarrow> (l, Inr (reject invalid_network p))
         | (l, Inr d) \<Rightarrow>
             logged (l @ [VerifyTypedData (permitTypedData d exactEvmPayload)])
               (case verifyTypedData client (permitTypedData d exactEvmPayload) of
                  Inl e \<Rightarrow> ([], Inl e)
                | Inr recoveredAddress \<Rightarrow>
                    (if \<not> recoveredAddress
                     then ([], Inr (reject invalid_exact_evm_payload_signature p))
                     else verifyRecipient client exactEvmPayload paymentRequirements
                            (verifyingContract d)))))"

section \<open>settle\<close>

definition failure :: "PaymentPayload \<Rightarrow> ErrorReason \<Rightarrow> string \<Rightarrow> SettleResponse" where
  "failure paymentPayload reason tx =
     \<lparr>success = False, errorReason = Some reason, transaction = tx,
      settle_network = network paymentPayload,
      settle_payer = auth_from (authorization (payload paymentPayload))\<rparr>"

text \<open>
  The arguments \<^verbatim>\<open>BigInt(value)\<close>, \<^verbatim>\<open>BigInt(validAfter)\<close>, \<^verbatim>\<open>BigInt(validBefore)\<close> of
  both \<^verbatim>\<open>writeContract\<close> calls, evaluated in this order.
\<close>

definition transferAmounts :: "Authorization \<Rightarrow> error + (int \<times> int \<times> int)" where
  "transferAmounts auth =
     (case BigInt (auth_value auth) of
        Inl e \<Rightarrow> Inl e
      | Inr v \<Rightarrow>
          (case BigInt (validAfter auth) of
             Inl e \<Rightarrow> Inl e
           | Inr va \<Rightarrow>
               (case BigInt (validBefore auth) of
                  Inl e \<Rightarrow> Inl e
                | Inr vb \<Rightarrow> Inr (v, va, vb))))"

text \<open>Lines 274--318: the submission branch, which yields the transaction hash \<^verbatim>\<open>tx\<close>.\<close>

definition submitTransfer ::
  "env \<Rightarrow> PaymentPayload \<Rightarrow> PaymentRequirements \<Rightarrow> event list \<times> (error + string)" where
  "submitTransfer wallet paymentPayload paymentRequirements =
     (let pl = payload paymentPayload; auth = authorization pl in
      if isSmartWallet (signature pl)
      then
        (case parseErc6492Signature wallet (signature pl) of
           Inl e \<Rightarrow> ([], Inl e)
         | Inr unwrapped \<Rightarrow>
             (case transferAmounts auth of
                Inl e \<Rightarrow> ([], Inl e)
              | Inr (v, va, vb) \<Rightarrow>
                  (let call =
                         \<lparr>call_address = asset paymentRequirements,
                          functionName = ''transferWithAuthorization'',
                          args = BytesSignature (auth_from auth) (auth_to auth) v va vb
                                   (nonce auth) (erc6492_signature unwrapped)\<rparr>
                   in ([WriteContract call], writeContract wallet call))))
      else
        (case parseSignature wallet (signature pl) of
           Inl e \<Rightarrow> ([], Inl e)
         | Inr parsedSig \<Rightarrow>
             (case transferAmounts auth of
                Inl e \<Rightarrow> ([], Inl e)
              | Inr (v, va, vb) \<Rightarrow>
                  (let rid = (case sig_v parsedSig of
                                Some x \<Rightarrow> Number_of_BigInt x
                              | None \<Rightarrow> Num (27 + yParity parsedSig));
                       call =
                         \<lparr>call_address = asset paymentRequirements,
                          functionName = ''transferWithAuthorization'',
                          args = ScalarTriple (auth_from auth) (auth_to auth) v va vb
                                   (nonce auth) rid (sig_r parsedSig) (sig_s parsedSig)\<rparr>
                   in ([WriteContract call], writeContract wallet call)))))"

text \<open>Lines 274--338: submit, await the receipt, report.\<close>

definition submitAndWait ::
  "env \<Rightarrow> PaymentPayload \<Rightarrow> PaymentRequirements \<Rightarrow> event list \<times> (error + SettleResponse)" where
  "submitAndWait wallet paymentPayload paymentRequirements =
     (case submitTransfer wallet paymentPayload paymentRequirements of
        (l, Inl e) \<Rightarrow> (l, Inl e)
      | (l, Inr tx) \<Rightarrow>
          logged (l @ [WaitForTransactionReceipt tx])
            (case waitForTransactionReceipt wallet tx of
               Inl e \<Rightarrow> ([], Inl e)
             | Inr status \<Rightarrow>
                 (if status \<noteq> Success
                  then ([], Inr (failure paymentPayload invalid_transaction_state tx))
                  else ([], Inr \<lparr>success = True, errorReason = None, transaction = tx,
                                  settle_network = network paymentPayload,
                                  settle_payer =
                                    auth_from (authorization (payload paymentPayload))\<rparr>))))"

text \<open>Lines 235--338: what settle does with the answer \<^verbatim>\<open>valid\<close> of its re-verification.\<close>

definition settleAfterVerify ::
  "env \<Rightarrow> PaymentPayload \<Rightarrow> PaymentRequirements \<Rightarrow> VerifyResponse
     \<Rightarrow> event list \<times> (error + SettleResponse)" where
  "settleAfterVerify wallet paymentPayload paymentRequirements valid =
     (let pl = payload paymentPayload; p = auth_from (authorization pl) in
      if \<not> isValid valid
      then ([], Inr (failure paymentPayload
                       (case invalidReason valid of None \<Rightarrow> invalid_scheme | Some r \<Rightarrow> r) []))
      else
      (if isSmartWallet (signature pl)
       then
         logged [GetCode p]
           (case getCode wallet 1 p of
              Inl e \<Rightarrow> ([], Inl e)
            | Inr bytecode \<Rightarrow>
                (if emptyBytecode bytecode
                 then ([], Inr (failure paymentPayload
                                  invalid_exact_evm_payload_undeployed_smart_wallet []))
                 else submitAndWait wallet paymentPayload paymentRequirements))
       else submitAndWait wallet paymentPayload paymentRequirements))"

definition settle ::
  "env \<Rightarrow> PaymentPayload \<Rightarrow> PaymentRequirements \<Rightarrow> event list \<times> (error + SettleResponse)" where
  "settle wallet paymentPayload paymentRequirements =
     (case verify wallet paymentPayload paymentRequirements of
        (l, Inl e) \<Rightarrow> (l, Inl e)
      | (l, Inr valid) \<Rightarrow>
          logged l (settleAfterVerify wallet paymentPayload paymentRequirements valid))"

definition submissions :: "event list \<Rightarrow> ContractCall list" where
  "submissions l = concat (map (\<lambda>ev. case ev of WriteContract c \<Rightarrow> [c] | _ \<Rightarrow> []) l)"

definition recoveryIdArg :: "TransferArgs \<Rightarrow> js_number option" where
  "recoveryIdArg a =
     (case a of
        ScalarTriple f t v va vb n rid r s \<Rightarrow> Some rid
      | BytesSignature f t v va vb n s \<Rightarrow> None)"

section \<open>The ordered checks of the specification\<close>

text \<open>
  Section 4.2 of the specification lists nine checks, run in order until one fails. Each
  is written here on its own, with the chain calls it makes: it passes, rejects with its
  reason, or throws. \<open>runChecks\<close> stops at the first that does not pass, keeping the
  calls made up to there.
\<close>

datatype CheckResult = Pass | Reject ErrorReason | Throw error

definition check_scheme :: "env \<Rightarrow> PaymentPayload \<Rightarrow> PaymentRequirements \<Rightarrow> event list \<times> CheckResult" where
  "check_scheme client pp req =
     ([], if scheme pp \<noteq> SCHEME \<or> req_scheme req \<noteq> SCHEME then Reject unsupported_scheme else Pass)"

definition check_network :: "env \<Rightarrow> PaymentPayload \<Rightarrow> PaymentRequirements \<Rightarrow> event list \<times> CheckResult" where
  "check_network client pp req =
     (fst (resolveDomain client pp req),
      case snd (resolveDomain client pp req) of
        Inl e \<Rightarrow> Reject invalid_network
      | Inr d \<Rightarrow> Pass)"

definition check_signature :: "env \<Rightarrow> PaymentPayload \<Rightarrow> PaymentRequirements \<Rightarrow> event list \<times> CheckResult" where
  "check_signature client pp req =
     (case snd (resolveDomain client pp req) of
        Inl e \<Rightarrow> ([], Pass)
      | Inr d \<Rightarrow>
          ([VerifyTypedData (permitTypedData d (payload pp))],
           case verifyTypedData client (permitTypedData d (payload pp)) of
             Inl e \<Rightarrow> Throw e
           | Inr ok \<Rightarrow> if ok then Pass else Reject invalid_exact_evm_payload_signature))"

definition check_recipient :: "env \<Rightarrow> PaymentPayload \<Rightarrow> PaymentRequirements \<Rightarrow> event list \<times> CheckResult" where
  "check_recipient client pp req =
     ([], case getAddress (keccak256_nibble client) (auth_to (authorization (payload pp))) of
            Inl e \<Rightarrow> Throw e
          | Inr a \<Rightarrow>
              (case getAddress (keccak256_nibble client) (payTo req) of
                 Inl e \<Rightarrow> Throw e
               | Inr b \<Rightarrow>
                   if a = b then Pass else Reject invalid_exact_evm_payload_recipient_mismatch))"

definition check_valid_before :: "env \<Rightarrow> PaymentPayload \<Rightarrow> PaymentRequirements \<Rightarrow> event list \<times> CheckResult" where
  "check_valid_before client pp req =
     ([], case BigInt (validBefore (authorization (payload pp))) of
            Inl e \<Rightarrow> Throw e
          | Inr vb \<Rightarrow>
              if Date_now client 0 div 1000 + 6 \<le> vb then Pass
              else Reject invalid_exact_evm_payload_authorization_valid_before)"

definition check_valid_after :: "env \<Rightarrow> PaymentPayload \<Rightarrow> PaymentRequirements \<Rightarrow> event list \<times> CheckResult" where
  "check_valid_after client pp req =
     ([], case BigInt (validAfter (authorization (payload pp))) of
            Inl e \<Rightarrow> Throw e
          | Inr va \<Rightarrow>
              if va \<le> Date_now client 1 div 1000 then Pass
              else Reject invalid_exact_evm_payload_authorization_valid_after)"

definition check_balance :: "env \<Rightarrow> PaymentPayload \<Rightarrow> PaymentRequirements \<Rightarrow> event list \<times> CheckResult" where
  "check_balance client pp req =
     ([GetERC20Balance (asset req) (auth_from (authorization (payload pp)))],
      case getERC20Balance client (asset req) (auth_from (authorization (payload pp))) of
        Inl e \<Rightarrow> Throw e
      | Inr balance \<Rightarrow>
          (case BigInt (maxAmountRequired req) of
             Inl e \<Rightarrow> Throw e
           | Inr required \<Rightarrow> if required \<le> balance then Pass else Reject insufficient_funds))"

definition check_value :: "env \<Rightarrow> PaymentPayload \<Rightarrow> PaymentRequirements \<Rightarrow> event list \<times> CheckResult" where
  "check_value client pp req =
     ([], case BigInt (auth_value (authorization (payload pp))) of
            Inl e \<Rightarrow> Throw e
          | Inr offered \<Rightarrow>
              (case BigInt (maxAmountRequired req) of
                 Inl e \<Rightarrow> Throw e
               | Inr required \<Rightarrow>
                   if required \<le> offered then Pass
                   else Reject invalid_exact_evm_payload_authorization_value))"

definition check_wallet :: "env \<Rightarrow> PaymentPayload \<Rightarrow> PaymentRequirements \<Rightarrow> event list \<times> CheckResult" where
  "check_wallet client pp req =
     (if SignatureShapeClassifier (signature (payload pp)) = ContractWallet
      then
        ([GetCode (auth_from (authorization (payload pp)))],
         case getCode client 0 (auth_from (authorization (payload pp))) of
           Inl e \<Rightarrow> Throw e
         | Inr bytecode \<Rightarrow>
             if emptyBytecode bytecode
             then
               (case parseErc6492Signature client (signature (payload pp)) of
                  Inl e \<Rightarrow> Throw e
                | Inr w \<Rightarrow>
                    if hasDeploymentInfo w then Pass
                    else Reject invalid_exact_evm_payload_undeployed_smart_wallet)
             else Pass)
      else ([], Pass))"

definition checks :: "env \<Rightarrow> PaymentPayload \<Rightarrow> PaymentRequirements \<Rightarrow> (event list \<times> CheckResult) list" where
  "checks client pp req =
     [check_scheme client pp req, check_network client pp req, check_signature client pp req,
      check_recipient client pp req, check_valid_before client pp req,
      check_valid_after client pp req, check_balance client pp req, check_value client pp req,
      check_wallet client pp req]"

fun runChecks :: "(event list \<times> CheckResult) list \<Rightarrow> event list \<times> CheckResult" where
  "runChecks [] = ([], Pass)"
| "runChecks ((l, Pass) # cs) = logged l (runChecks cs)"
| "runChecks ((l, c) # cs) = (l, c)"

definition answer :: "string \<Rightarrow> CheckResult \<Rightarrow> error + VerifyResponse" where
  "answer p c = (case c of Pass \<Rightarrow> Inr (accept p) | Reject r \<Rightarrow> Inr (reject r p) | Throw e \<Rightarrow> Inl e)"

text \<open>The first \<open>n\<close> checks all pass: the authorization reaches check \<open>n + 1\<close>.\<close>

definition passes :: "nat \<Rightarrow> env \<Rightarrow> PaymentPayload \<Rightarrow> PaymentRequirements \<Rightarrow> bool" where
  "passes n client pp req = (snd (runChecks (take n (checks client pp req))) = Pass)"

definition addressValue :: "string \<Rightarrow> string" where
  "addressValue a = map toLowerCase (drop 2 a)"

text \<open>The checks from check \<open>n + 1\<close> on, as an answer of verify.\<close>

definition checksFrom ::
  "nat \<Rightarrow> env \<Rightarrow> PaymentPayload \<Rightarrow> PaymentRequirements \<Rightarrow> event list \<times> (error + VerifyResponse)" where
  "checksFrom n client pp req =
     (fst (runChecks (drop n (checks client pp req))),
      answer (auth_from (authorization (payload pp)))
        (snd (runChecks (drop n (checks client pp req)))))"

text \<open>The reason each check rejects with, in the order of the checks.\<close>

definition checkReasons :: "ErrorReason list" where
  "checkReasons =
     [unsupported_scheme, invalid_network, invalid_exact_evm_payload_signature,
      invalid_exact_evm_payload_recipient_mismatch,
      invalid_exact_evm_payload_authorization_valid_before,
      invalid_exact_evm_payload_authorization_valid_after,
      insufficient_funds, invalid_exact_evm_payload_authorization_value,
      invalid_exact_evm_payload_undeployed_smart_wallet]"

section \<open>The fixtures of the bundled test\<close>

text \<open>
  \<^verbatim>\<open>facilitator.test.ts\<close> builds its requirements, payloads and mocked wallet as below;
  the clock is pinned here to 1700000000 seconds and the hash to a fixed pattern.
\<close>

definition mockPaymentRequirements :: PaymentRequirements where
  "mockPaymentRequirements =
     \<lparr>req_scheme = ''exact'', req_network = ''base-sepolia'',
      maxAmountRequired = ''1000000'',
      payTo = ''0x1234567890123456789012345678901234567890'',
      asset = ''0x036CbD53842c5426634e7929541eC2318f3dCF7e'',
      extra = None\<rparr>"

definition mockAuthorization :: Authorization where
  "mockAuthorization =
     \<lparr>auth_from = ''0xabcdef1234567890123456789012345678901234'',
      auth_to = ''0x1234567890123456789012345678901234567890'',
      auth_value = ''1000000'',
      validAfter = ''1699999400'',
      validBefore = ''1700000300'',
      nonce = ''0x1234567890abcdef''\<rparr>"

definition baseSignature :: string where
  "baseSignature =
     ''0x1234567890abcdef1234567890abcdef1234567890abcdef1234567890abcdef'' @
     ''1234567890abcdef1234567890abcdef1234567890abcdef1234567890abcdef1b''"

definition createMockPayload :: "nat \<Rightarrow> Authorization \<Rightarrow> PaymentPayload" where
  "createMockPayload len auth =
     \<lparr>x402Version = 1, scheme = ''exact'', network = ''base-sepolia'',
      payload = \<lparr>signature = baseSignature @ replicate (len - 130) CHR ''0'',
                 authorization = auth\<rparr>\<rparr>"

definition createMockWallet :: "string option \<Rightarrow> env" where
  "createMockWallet bytecode =
     \<lparr>getNetworkId =
        (\<lambda>n. if n = ''base-sepolia'' then Inr 84532 else Inl (UnsupportedNetwork n)),
      config =
        (\<lambda>c. if c = 84532
              then Some \<lparr>usdcAddress = ''0x036CbD53842c5426634e7929541eC2318f3dCF7e'',
                         usdcName = ''USDC''\<rparr>
              else None),
      getVersion = Inr ''2'',
      verifyTypedData = (\<lambda>td. Inr True),
      keccak256_nibble = (\<lambda>s i. if even i then 9 else 3),
      Date_now = (\<lambda>k. 1700000000123),
      getERC20Balance = (\<lambda>token owner. Inr 2000000),
      getCode = (\<lambda>k a. Inr bytecode),
      parseErc6492Signature =
        (\<lambda>s. Inr \<lparr>erc6492_address = None, erc6492_data = None, erc6492_signature = s\<rparr>),
      parseSignature =
        (\<lambda>s. Inr \<lparr>sig_r = ''0x1234567890abcdef1234567890abcdef1234567890abcdef1234567890abcdef'',
                     sig_s = ''0xabcdef1234567890abcdef1234567890abcdef1234567890abcdef1234567890'',
                     sig_v = Some 27, yParity = 0\<rparr>),
      writeContract = (\<lambda>c. Inr ''0xtxhash''),
      waitForTransactionReceipt = (\<lambda>h. Inr Success)\<rparr>"

definition eip6492 :: "string \<Rightarrow> error + Erc6492" where
  "eip6492 s =
     Inr \<lparr>erc6492_address = Some ''0xFactoryAddress000000000000000000000000'',
          erc6492_data = Some ''0xfactoryCa11data'', erc6492_signature = s\<rparr>"

section \<open>verify runs the checks in order\<close>

text \<open>
  Each part of verify is the run of the checks it holds; so verify is the run of all nine,
  and an authorization that passes the first \<open>n\<close> is answered by the others.
\<close>

lemma fst_resolveDomain:
  "fst (resolveDomain client pp req) = [] \<or> fst (resolveDomain client pp req) = [GetVersion]"
  by (auto simp: resolveDomain_def logged_def split: sum.splits option.splits)

lemma resolveDomain_asset:
  "resolveDomain client pp req = (l, Inr d) \<Longrightarrow> verifyingContract d = asset req"
  by (auto simp: resolveDomain_def logged_def split: sum.splits option.splits)

lemma verifyWalletDeployed_checksFrom:
  "verifyWalletDeployed client (payload pp) = checksFrom 8 client pp req"
  by (simp add: verifyWalletDeployed_def checksFrom_def checks_def check_wallet_def
      SignatureShapeClassifier_def logged_def answer_def Let_def split: sum.splits)

lemma verifyFunds_checksFrom:
  "verifyFunds client (payload pp) req (asset req) = checksFrom 6 client pp req"
  using verifyWalletDeployed_checksFrom[of client pp req]
  by (simp add: verifyFunds_def checksFrom_def checks_def check_balance_def check_value_def
      logged_def answer_def Let_def split: sum.splits)

lemma verifyDeadline_checksFrom:
  "verifyDeadline client (payload pp) req (asset req) = checksFrom 4 client pp req"
  using verifyFunds_checksFrom[of client pp req]
  by (simp add: verifyDeadline_def checksFrom_def checks_def check_valid_before_def
      check_valid_after_def logged_def answer_def Let_def split: sum.splits)

lemma verifyRecipient_checksFrom:
  "verifyRecipient client (payload pp) req (asset req) = checksFrom 3 client pp req"
  using verifyDeadline_checksFrom[of client pp req]
  by (simp add: verifyRecipient_def checksFrom_def checks_def check_recipient_def
      logged_def answer_def Let_def split: sum.splits)

lemma verify_checksFrom:
  "verify client pp req = checksFrom 0 client pp req"
proof (cases "resolveDomain client pp req")
  case (Pair l r)
  show ?thesis
  proof (cases r)
    case (Inl e)
    with Pair show ?thesis
      by (simp add: verify_def checksFrom_def checks_def check_scheme_def check_network_def
          logged_def answer_def)
  next
    case (Inr d)
    with Pair have "verifyingContract d = asset req"
      by (simp add: resolveDomain_asset)
    with Pair Inr verifyRecipient_checksFrom[of client pp req] show ?thesis
      by (simp add: verify_def checksFrom_def checks_def check_scheme_def check_network_def
          check_signature_def logged_def answer_def Let_def split: sum.splits)
  qed
qed

lemma runChecks_append:
  "runChecks (xs @ ys) =
     (if snd (runChecks xs) = Pass then logged (fst (runChecks xs)) (runChecks ys)
      else runChecks xs)"
  by (induction xs rule: runChecks.induct) (auto simp: logged_def)

lemma runChecks_split:
  "runChecks cs =
     (if snd (runChecks (take n cs)) = Pass
      then logged (fst (runChecks (take n cs))) (runChecks (drop n cs))
      else runChecks (take n cs))"
  using runChecks_append[of "take n cs" "drop n cs"] by simp

lemma passes_verify:
  assumes "passes n client pp req"
  shows "verify client pp req =
           logged (fst (runChecks (take n (checks client pp req)))) (checksFrom n client pp req)"
  using assms runChecks_split[of "checks client pp req" n]
  by (simp add: verify_checksFrom checksFrom_def passes_def logged_def)

lemma runChecks_Pass:
  "snd (runChecks cs) = Pass \<Longrightarrow> c \<in> set cs \<Longrightarrow> snd c = Pass"
  by (induction cs rule: runChecks.induct) (auto simp: logged_def)

lemma runChecks_Reject:
  "snd (runChecks cs) = Reject r \<Longrightarrow> \<exists>c \<in> set cs. snd c = Reject r"
  by (induction cs rule: runChecks.induct) (auto simp: logged_def)

lemma answer_inject:
  "answer p c = answer p c' \<longleftrightarrow> c = c'"
  by (auto simp: answer_def accept_def reject_def split: CheckResult.splits)

lemma answer_simps:
  "answer p Pass = Inr (accept p)"
  "answer p (Reject r) = Inr (reject r p)"
  "answer p (Throw e) = Inl e"
  by (simp_all add: answer_def)

lemma check_reasons:
  "snd (check_scheme client pp req) = Reject r \<Longrightarrow> r = unsupported_scheme"
  "snd (check_network client pp req) = Reject r \<Longrightarrow> r = invalid_network"
  "snd (check_signature client pp req) = Reject r \<Longrightarrow> r = invalid_exact_evm_payload_signature"
  "snd (check_recipient client pp req) = Reject r \<Longrightarrow> r = invalid_exact_evm_payload_recipient_mismatch"
  "snd (check_valid_before client pp req) = Reject r \<Longrightarrow> r = invalid_exact_evm_payload_authorization_valid_before"
  "snd (check_valid_after client pp req) = Reject r \<Longrightarrow> r = invalid_exact_evm_payload_authorization_valid_after"
  "snd (check_balance client pp req) = Reject r \<Longrightarrow> r = insufficient_funds"
  "snd (check_value client pp req) = Reject r \<Longrightarrow> r = invalid_exact_evm_payload_authorization_value"
  "snd (check_wallet client pp req) = Reject r \<Longrightarrow> r = invalid_exact_evm_payload_undeployed_smart_wallet"
  by (auto simp: check_scheme_def check_network_def check_signature_def check_recipient_def
      check_valid_before_def check_valid_after_def check_balance_def check_value_def
      check_wallet_def split: sum.splits if_splits)

lemma checks_nth:
  "checks client pp req ! 0 = check_scheme client pp req"
  "checks client pp req ! 1 = check_network client pp req"
  "checks client pp req ! 2 = check_signature client pp req"
  "checks client pp req ! 3 = check_recipient client pp req"
  "checks client pp req ! 4 = check_valid_before client pp req"
  "checks client pp req ! 5 = check_valid_after client pp req"
  "checks client pp req ! 6 = check_balance client pp req"
  "checks client pp req ! 7 = check_value client pp req"
  "checks client pp req ! 8 = check_wallet client pp req"
  by (simp_all add: checks_def)

lemma later_checks_reason:
  assumes "snd (runChecks (drop (Suc k) (checks client pp req))) = Reject r" "k < 9"
  shows "r \<noteq> checkReasons ! k"
proof -
  from assms(1) obtain c where c: "c \<in> set (drop (Suc k) (checks client pp req))" "snd c = Reject r"
    using runChecks_Reject by blast
  from assms(2) consider "k = 0" | "k = 1" | "k = 2" | "k = 3" | "k = 4" | "k = 5" | "k = 6" | "k = 7" | "k = 8"
    by linarith
  then show ?thesis
    using c by cases (auto simp: checks_def checkReasons_def dest!: check_reasons)
qed

lemma passes_Suc:
  assumes "n < 9"
  shows "passes (Suc n) client pp req \<longleftrightarrow>
         passes n client pp req \<and> snd (checks client pp req ! n) = Pass"
proof -
  have len: "length (checks client pp req) = 9" by (simp add: checks_def)
  with assms have tk: "take (Suc n) (checks client pp req) =
      take n (checks client pp req) @ [checks client pp req ! n]"
    by (simp add: take_Suc_conv_app_nth)
  obtain l c where lc: "checks client pp req ! n = (l, c)" by (cases "checks client pp req ! n")
  show ?thesis
    unfolding passes_def tk runChecks_append lc
    by (cases c) (auto simp: logged_def)
qed

lemma checksFrom_step:
  assumes "n < 9"
  shows "snd (checksFrom n client pp req) =
     (if snd (checks client pp req ! n) = Pass then snd (checksFrom (Suc n) client pp req)
      else answer (auth_from (authorization (payload pp))) (snd (checks client pp req ! n)))"
proof -
  have len: "length (checks client pp req) = 9" by (simp add: checks_def)
  with assms have dr: "drop n (checks client pp req) =
      checks client pp req ! n # drop (Suc n) (checks client pp req)"
    by (simp add: Cons_nth_drop_Suc)
  obtain l c where lc: "checks client pp req ! n = (l, c)" by (cases "checks client pp req ! n")
  show ?thesis
    unfolding checksFrom_def dr lc
    by (cases c) (auto simp: logged_def)
qed

lemma verify_at_check:
  assumes "passes n client pp req" "n < 9"
  shows "snd (verify client pp req) =
     (if snd (checks client pp req ! n) = Pass then snd (checksFrom (Suc n) client pp req)
      else answer (auth_from (authorization (payload pp))) (snd (checks client pp req ! n)))"
  using passes_verify[OF assms(1)] checksFrom_step[OF assms(2), of client pp req]
  by (simp add: logged_def)

lemma checksFrom_later_reason:
  assumes "k < 9"
  shows "snd (checksFrom (Suc k) client pp req) \<noteq>
           Inr (reject (checkReasons ! k) (auth_from (authorization (payload pp))))"
proof
  assume "snd (checksFrom (Suc k) client pp req) =
            Inr (reject (checkReasons ! k) (auth_from (authorization (payload pp))))"
  then have "snd (runChecks (drop (Suc k) (checks client pp req))) = Reject (checkReasons ! k)"
    by (simp add: checksFrom_def answer_simps(2)[symmetric] answer_inject del: answer_simps)
  from later_checks_reason[OF this assms] show False by simp
qed

section \<open>Facts about the fixtures\<close>

lemma mock_passes_deadline:
  "passes 4 (createMockWallet None)
     (createMockPayload 130 (mockAuthorization\<lparr>validBefore := vb\<rparr>)) mockPaymentRequirements"
  "passes 5 (createMockWallet None)
     (createMockPayload 130 (mockAuthorization\<lparr>validAfter := va\<rparr>)) mockPaymentRequirements"
  by code_simp+

lemma mock_now: "Date_now (createMockWallet bc) k div 1000 = 1700000000"
  by (simp add: createMockWallet_def)

lemma mock_payload_simps:
  "authorization (payload (createMockPayload n a)) = a"
  "auth_from mockAuthorization = ''0xabcdef1234567890123456789012345678901234''"
  by (simp_all add: createMockPayload_def mockAuthorization_def)

section \<open>Properties\<close>

subsection \<open>C1: the classifier\<close>

lemma signatureLength_prefixed:
  "\<not> startsWith sig ''0x'' \<Longrightarrow> signatureLength (''0x'' @ sig) = signatureLength sig"
  by (simp add: signatureLength_def startsWith_def)

text \<open>
  C1, as the code has it. A signature is classified EOA exactly when it has at most 130
  characters after an optional \<^verbatim>\<open>0x\<close> prefix is stripped (65 bytes or fewer), and
  ContractWallet exactly when it has more. A signature that does not itself start with
  \<^verbatim>\<open>0x\<close> is classified the same with the prefix added.
\<close>

theorem classifier_threshold:
  "(SignatureShapeClassifier sig = EOA \<longleftrightarrow> signatureLength sig \<le> 130)
   \<and> (SignatureShapeClassifier sig = ContractWallet \<longleftrightarrow> 130 < signatureLength sig)
   \<and> (\<not> startsWith sig ''0x'' \<longrightarrow>
        signatureLength sig = length sig
        \<and> SignatureShapeClassifier (''0x'' @ sig) = SignatureShapeClassifier sig)"
  using signatureLength_prefixed[of sig]
  by (auto simp: SignatureShapeClassifier_def isSmartWallet_def signatureLength_def)

theorem classifier_threshold_witness:
  "\<not> startsWith (replicate 130 CHR ''a'') ''0x''
   \<and> SignatureShapeClassifier (replicate 130 CHR ''a'') = EOA
   \<and> SignatureShapeClassifier (''0x'' @ replicate 130 CHR ''a'') = EOA
   \<and> SignatureShapeClassifier (replicate 132 CHR ''a'') = ContractWallet
   \<and> SignatureShapeClassifier (''0x'' @ replicate 132 CHR ''a'') = ContractWallet"
proof -
  have a: "\<not> startsWith (replicate 130 CHR ''a'') ''0x''"
    and b: "\<not> startsWith (replicate 132 CHR ''a'') ''0x''"
    by (simp_all add: startsWith_def)
  from a b classifier_threshold[of "replicate 130 CHR ''a''"]
    classifier_threshold[of "replicate 132 CHR ''a''"]
  show ?thesis by simp
qed

text \<open>
  The claim as stated fails below 65 bytes: a signature of one byte, \<^verbatim>\<open>0x1b\<close>, is
  classified EOA.
\<close>

theorem classifier_short_signature:
  "signatureLength ''0x1b'' \<noteq> 130 \<and> SignatureShapeClassifier ''0x1b'' = EOA"
  by (simp add: SignatureShapeClassifier_def isSmartWallet_def signatureLength_def
      startsWith_def)

subsection \<open>C3: the deadline window\<close>

text \<open>
  C3. An authorization that reaches the valid-before check (the four checks before it
  pass) and whose \<^verbatim>\<open>validBefore\<close> reads as the integer \<open>vb\<close> is rejected with the
  valid-before reason exactly when \<open>vb\<close> is less than now + 6, now being the clock in
  seconds at that check; one that reaches the valid-after check and whose
  \<^verbatim>\<open>validAfter\<close> reads as \<open>va\<close> is rejected with the valid-after reason exactly when
  \<open>va\<close> is greater than now. So one that reaches the valid-before check gets the
  valid-after reason exactly when its \<open>vb\<close> is at least now + 6 and its \<open>va\<close> is
  greater than now. The integers are unbounded.
\<close>

theorem verify_deadline_window:
  "(passes 4 client pp req \<and> BigInt (validBefore (authorization (payload pp))) = Inr vb \<longrightarrow>
      (snd (verify client pp req) =
         Inr (reject invalid_exact_evm_payload_authorization_valid_before
                (auth_from (authorization (payload pp)))))
      = (vb < Date_now client 0 div 1000 + 6))
   \<and> (passes 5 client pp req \<and> BigInt (validAfter (authorization (payload pp))) = Inr va \<longrightarrow>
      (snd (verify client pp req) =
         Inr (reject invalid_exact_evm_payload_authorization_valid_after
                (auth_from (authorization (payload pp)))))
      = (Date_now client 1 div 1000 < va))
   \<and> (passes 4 client pp req \<and> BigInt (validBefore (authorization (payload pp))) = Inr vb
        \<and> BigInt (validAfter (authorization (payload pp))) = Inr va \<longrightarrow>
      (snd (verify client pp req) =
         Inr (reject invalid_exact_evm_payload_authorization_valid_after
                (auth_from (authorization (payload pp)))))
      = (Date_now client 0 div 1000 + 6 \<le> vb \<and> Date_now client 1 div 1000 < va))"
proof (intro conjI impI)
  assume a: "passes 4 client pp req \<and> BigInt (validBefore (authorization (payload pp))) = Inr vb"
  have later: "snd (checksFrom 5 client pp req) \<noteq>
      Inr (reject invalid_exact_evm_payload_authorization_valid_before
             (auth_from (authorization (payload pp))))"
    using checksFrom_later_reason[of 4 client pp req] by (simp add: checkReasons_def)
  from a verify_at_check[of 4 client pp req] later
  show "(snd (verify client pp req) =
         Inr (reject invalid_exact_evm_payload_authorization_valid_before
                (auth_from (authorization (payload pp)))))
      = (vb < Date_now client 0 div 1000 + 6)"
    by (auto simp: checks_nth check_valid_before_def answer_simps)
next
  assume a: "passes 5 client pp req \<and> BigInt (validAfter (authorization (payload pp))) = Inr va"
  have later: "snd (checksFrom 6 client pp req) \<noteq>
      Inr (reject invalid_exact_evm_payload_authorization_valid_after
             (auth_from (authorization (payload pp))))"
    using checksFrom_later_reason[of 5 client pp req] by (simp add: checkReasons_def)
  from a verify_at_check[of 5 client pp req] later
  show "(snd (verify client pp req) =
         Inr (reject invalid_exact_evm_payload_authorization_valid_after
                (auth_from (authorization (payload pp)))))
      = (Date_now client 1 div 1000 < va)"
    by (auto simp: checks_nth check_valid_after_def answer_simps)
next
  assume a: "passes 4 client pp req \<and> BigInt (validBefore (authorization (payload pp))) = Inr vb
        \<and> BigInt (validAfter (authorization (payload pp))) = Inr va"
  show "(snd (verify client pp req) =
         Inr (reject invalid_exact_evm_payload_authorization_valid_after
                (auth_from (authorization (payload pp)))))
      = (Date_now client 0 div 1000 + 6 \<le> vb \<and> Date_now client 1 div 1000 < va)"
  proof (cases "vb < Date_now client 0 div 1000 + 6")
    case True
    with a verify_at_check[of 4 client pp req] show ?thesis
      by (simp add: checks_nth check_valid_before_def answer_simps reject_def)
  next
    case False
    with a have p5: "passes 5 client pp req"
      using passes_Suc[of 4 client pp req] by (simp add: checks_nth check_valid_before_def)
    have later: "snd (checksFrom 6 client pp req) \<noteq>
        Inr (reject invalid_exact_evm_payload_authorization_valid_after
               (auth_from (authorization (payload pp))))"
      using checksFrom_later_reason[of 5 client pp req] by (simp add: checkReasons_def)
    from a p5 False later verify_at_check[of 5 client pp req] show ?thesis
      by (auto simp: checks_nth check_valid_after_def answer_simps)
  qed
qed


text \<open>
  At the boundaries, with the clock at 1700000000: \<^verbatim>\<open>validBefore\<close> = now + 6 is not
  rejected and now + 5 is; \<^verbatim>\<open>validAfter\<close> = now is not rejected and \<open>10^29\<close> is.
\<close>

theorem verify_deadline_window_witness:
  "passes 4 (createMockWallet None)
     (createMockPayload 130 (mockAuthorization\<lparr>validBefore := ''1700000006''\<rparr>))
     mockPaymentRequirements
   \<and> BigInt ''1700000006'' = Inr 1700000006
   \<and> snd (verify (createMockWallet None)
        (createMockPayload 130 (mockAuthorization\<lparr>validBefore := ''1700000006''\<rparr>))
        mockPaymentRequirements)
       \<noteq> Inr (reject invalid_exact_evm_payload_authorization_valid_before
                  ''0xabcdef1234567890123456789012345678901234'')
   \<and> snd (verify (createMockWallet None)
        (createMockPayload 130 (mockAuthorization\<lparr>validBefore := ''1700000005''\<rparr>))
        mockPaymentRequirements)
       = Inr (reject invalid_exact_evm_payload_authorization_valid_before
                ''0xabcdef1234567890123456789012345678901234'')
   \<and> passes 5 (createMockWallet None)
     (createMockPayload 130 (mockAuthorization\<lparr>validAfter := ''1700000000''\<rparr>))
     mockPaymentRequirements
   \<and> snd (verify (createMockWallet None)
        (createMockPayload 130 (mockAuthorization\<lparr>validAfter := ''1700000000''\<rparr>))
        mockPaymentRequirements)
       \<noteq> Inr (reject invalid_exact_evm_payload_authorization_valid_after
                  ''0xabcdef1234567890123456789012345678901234'')
   \<and> snd (verify (createMockWallet None)
        (createMockPayload 130
           (mockAuthorization\<lparr>validAfter := ''100000000000000000000000000000''\<rparr>))
        mockPaymentRequirements)
       = Inr (reject invalid_exact_evm_payload_authorization_valid_after
                ''0xabcdef1234567890123456789012345678901234'')"
proof -
  have b: "BigInt ''1700000006'' = Inr 1700000006" "BigInt ''1700000005'' = Inr 1700000005"
    "BigInt ''1700000000'' = Inr 1700000000"
    "BigInt ''100000000000000000000000000000'' = Inr (10 ^ 29)"
    by code_simp+
  show ?thesis
    using b mock_passes_deadline
      verify_deadline_window[of "createMockWallet None"
        "createMockPayload 130 (mockAuthorization\<lparr>validBefore := ''1700000006''\<rparr>)"
        mockPaymentRequirements 1700000006]
      verify_deadline_window[of "createMockWallet None"
        "createMockPayload 130 (mockAuthorization\<lparr>validBefore := ''1700000005''\<rparr>)"
        mockPaymentRequirements 1700000005]
      verify_deadline_window[of "createMockWallet None"
        "createMockPayload 130 (mockAuthorization\<lparr>validAfter := ''1700000000''\<rparr>)"
        mockPaymentRequirements _ 1700000000]
      verify_deadline_window[of "createMockWallet None"
        "createMockPayload 130
           (mockAuthorization\<lparr>validAfter := ''100000000000000000000000000000''\<rparr>)"
        mockPaymentRequirements _ "10 ^ 29"]
    by (simp add: mock_now mock_payload_simps)
qed

subsection \<open>C4: the earliest failing check decides\<close>

lemma verify_rejects_at:
  assumes "n < 9" "passes n client pp req" "snd (checks client pp req ! n) = Reject r"
  shows "verify client pp req =
          (fst (runChecks (take (Suc n) (checks client pp req))),
           Inr (reject r (auth_from (authorization (payload pp)))))"
proof -
  have "length (checks client pp req) = 9" by (simp add: checks_def)
  with assms(1) have tk: "take (Suc n) (checks client pp req) =
      take n (checks client pp req) @ [checks client pp req ! n]"
    by (simp add: take_Suc_conv_app_nth)
  from assms(3) obtain l where l: "checks client pp req ! n = (l, Reject r)"
    by (cases "checks client pp req ! n") simp
  from assms(2) have "runChecks (take (Suc n) (checks client pp req)) =
      (fst (runChecks (take n (checks client pp req))) @ l, Reject r)"
    unfolding tk runChecks_append l by (simp add: passes_def logged_def)
  then show ?thesis
    using runChecks_split[of "checks client pp req" "Suc n"]
    by (simp add: verify_checksFrom checksFrom_def answer_simps)
qed

text \<open>
  C4. verify is the run of the nine checks in their order, stopping at the first that does
  not pass: its answer is that check's, and the chain calls it made are those of the
  checks up to that one. So an authorization that passes the first \<open>n\<close> checks and is
  rejected by the next is answered with that check's reason. In particular, one that
  reaches the balance check with a balance below \<^verbatim>\<open>maxAmountRequired\<close> gets
  \<open>insufficient_funds\<close> whatever its \<^verbatim>\<open>value\<close> (and no bytecode is read), and one
  whose balance suffices but whose \<^verbatim>\<open>value\<close> is below \<^verbatim>\<open>maxAmountRequired\<close> gets
  \<open>invalid_exact_evm_payload_authorization_value\<close>.
\<close>

theorem verify_earliest_failure:
  "verify client pp req =
     (fst (runChecks (checks client pp req)),
      answer (auth_from (authorization (payload pp))) (snd (runChecks (checks client pp req))))
   \<and> (n < 9 \<and> passes n client pp req \<and> snd (checks client pp req ! n) = Reject r \<longrightarrow>
        verify client pp req =
          (fst (runChecks (take (Suc n) (checks client pp req))),
           Inr (reject r (auth_from (authorization (payload pp))))))
   \<and> (passes 6 client pp req
        \<and> getERC20Balance client (asset req) (auth_from (authorization (payload pp))) = Inr balance
        \<and> BigInt (maxAmountRequired req) = Inr required
        \<and> balance < required \<longrightarrow>
        snd (verify client pp req) =
          Inr (reject insufficient_funds (auth_from (authorization (payload pp))))
        \<and> GetCode (auth_from (authorization (payload pp))) \<notin> set (fst (verify client pp req)))
   \<and> (passes 6 client pp req
        \<and> getERC20Balance client (asset req) (auth_from (authorization (payload pp))) = Inr balance
        \<and> BigInt (maxAmountRequired req) = Inr required
        \<and> required \<le> balance
        \<and> BigInt (auth_value (authorization (payload pp))) = Inr offered
        \<and> offered < required \<longrightarrow>
        snd (verify client pp req) =
          Inr (reject invalid_exact_evm_payload_authorization_value
                 (auth_from (authorization (payload pp)))))"
proof (intro conjI impI)
  show "verify client pp req =
     (fst (runChecks (checks client pp req)),
      answer (auth_from (authorization (payload pp))) (snd (runChecks (checks client pp req))))"
    by (simp add: verify_checksFrom checksFrom_def)
next
  assume "n < 9 \<and> passes n client pp req \<and> snd (checks client pp req ! n) = Reject r"
  then show "verify client pp req =
          (fst (runChecks (take (Suc n) (checks client pp req))),
           Inr (reject r (auth_from (authorization (payload pp)))))"
    by (simp add: verify_rejects_at)
next
  assume a: "passes 6 client pp req
        \<and> getERC20Balance client (asset req) (auth_from (authorization (payload pp))) = Inr balance
        \<and> BigInt (maxAmountRequired req) = Inr required
        \<and> balance < required"
  with verify_at_check[of 6 client pp req]
  show "snd (verify client pp req) =
          Inr (reject insufficient_funds (auth_from (authorization (payload pp))))"
    by (simp add: checks_nth check_balance_def answer_simps)
  have "fst (checksFrom 6 client pp req) =
          [GetERC20Balance (asset req) (auth_from (authorization (payload pp)))]"
    using a by (simp add: checksFrom_def checks_def check_balance_def)
  moreover have "GetCode (auth_from (authorization (payload pp)))
      \<notin> set (fst (runChecks (take 6 (checks client pp req))))"
    using fst_resolveDomain[of client pp req]
    by (auto simp: checks_def check_scheme_def check_network_def check_signature_def
        check_recipient_def check_valid_before_def check_valid_after_def logged_def
        split: sum.splits if_splits CheckResult.splits)
  ultimately show "GetCode (auth_from (authorization (payload pp))) \<notin> set (fst (verify client pp req))"
    using a passes_verify[of 6 client pp req] by (simp add: logged_def)
next
  assume a: "passes 6 client pp req
        \<and> getERC20Balance client (asset req) (auth_from (authorization (payload pp))) = Inr balance
        \<and> BigInt (maxAmountRequired req) = Inr required
        \<and> required \<le> balance
        \<and> BigInt (auth_value (authorization (payload pp))) = Inr offered
        \<and> offered < required"
  then have "passes 7 client pp req"
    using passes_Suc[of 6 client pp req] by (simp add: checks_nth check_balance_def)
  with a verify_at_check[of 7 client pp req]
  show "snd (verify client pp req) =
          Inr (reject invalid_exact_evm_payload_authorization_value
                 (auth_from (authorization (payload pp))))"
    by (simp add: checks_nth check_value_def answer_simps)
qed


lemma mock_passes_6:
  "passes 6 (createMockWallet None\<lparr>getERC20Balance := b\<rparr>)
     (createMockPayload 130 (mockAuthorization\<lparr>auth_value := v\<rparr>)) mockPaymentRequirements"
  by code_simp

lemma mock_requirements_simps:
  "asset mockPaymentRequirements = ''0x036CbD53842c5426634e7929541eC2318f3dCF7e''"
  "maxAmountRequired mockPaymentRequirements = ''1000000''"
  "payTo mockPaymentRequirements = ''0x1234567890123456789012345678901234567890''"
  "req_scheme mockPaymentRequirements = ''exact''"
  by (simp_all add: mockPaymentRequirements_def)

lemma BigInt_fixtures:
  "BigInt ''1000000'' = Inr 1000000"
  "BigInt ''999999'' = Inr 999999"
  by code_simp+

theorem verify_earliest_failure_witness:
  "passes 6 (createMockWallet None\<lparr>getERC20Balance := \<lambda>t a. Inr 999999\<rparr>)
     (createMockPayload 130 (mockAuthorization\<lparr>auth_value := ''999999''\<rparr>))
     mockPaymentRequirements
   \<and> snd (verify (createMockWallet None\<lparr>getERC20Balance := \<lambda>t a. Inr 999999\<rparr>)
        (createMockPayload 130 (mockAuthorization\<lparr>auth_value := ''999999''\<rparr>))
        mockPaymentRequirements)
       = Inr (reject insufficient_funds ''0xabcdef1234567890123456789012345678901234'')
   \<and> snd (verify (createMockWallet None\<lparr>getERC20Balance := \<lambda>t a. Inr 1000000\<rparr>)
        (createMockPayload 130 (mockAuthorization\<lparr>auth_value := ''999999''\<rparr>))
        mockPaymentRequirements)
       = Inr (reject invalid_exact_evm_payload_authorization_value
                ''0xabcdef1234567890123456789012345678901234'')
   \<and> passes 0 (createMockWallet None) (createMockPayload 130 mockAuthorization)
        (mockPaymentRequirements\<lparr>req_scheme := ''upto'', maxAmountRequired := ''x''\<rparr>)
   \<and> snd (verify (createMockWallet None) (createMockPayload 130 mockAuthorization)
        (mockPaymentRequirements\<lparr>req_scheme := ''upto'', maxAmountRequired := ''x''\<rparr>))
       = Inr (reject unsupported_scheme ''0xabcdef1234567890123456789012345678901234'')"
proof -
  have s: "snd (checks (createMockWallet None) (createMockPayload 130 mockAuthorization)
        (mockPaymentRequirements\<lparr>req_scheme := ''upto'', maxAmountRequired := ''x''\<rparr>) ! 0)
      = Reject unsupported_scheme"
    "passes 0 (createMockWallet None) (createMockPayload 130 mockAuthorization)
        (mockPaymentRequirements\<lparr>req_scheme := ''upto'', maxAmountRequired := ''x''\<rparr>)"
    by code_simp+
  have g: "getERC20Balance (createMockWallet None\<lparr>getERC20Balance := b\<rparr>) = b" for b
    by (simp add: createMockWallet_def)
  have 1: "snd (verify (createMockWallet None\<lparr>getERC20Balance := \<lambda>t a. Inr 999999\<rparr>)
        (createMockPayload 130 (mockAuthorization\<lparr>auth_value := ''999999''\<rparr>))
        mockPaymentRequirements)
       = Inr (reject insufficient_funds ''0xabcdef1234567890123456789012345678901234'')"
    using mock_passes_6
      verify_earliest_failure[of "createMockWallet None\<lparr>getERC20Balance := \<lambda>t a. Inr 999999\<rparr>"
        "createMockPayload 130 (mockAuthorization\<lparr>auth_value := ''999999''\<rparr>)"
        mockPaymentRequirements 6 insufficient_funds 999999 1000000 999999,
        THEN conjunct2, THEN conjunct2, THEN conjunct1]
    by (simp add: g mock_payload_simps mock_requirements_simps BigInt_fixtures)
  have 2: "snd (verify (createMockWallet None\<lparr>getERC20Balance := \<lambda>t a. Inr 1000000\<rparr>)
        (createMockPayload 130 (mockAuthorization\<lparr>auth_value := ''999999''\<rparr>))
        mockPaymentRequirements)
       = Inr (reject invalid_exact_evm_payload_authorization_value
                ''0xabcdef1234567890123456789012345678901234'')"
    using mock_passes_6
      verify_earliest_failure[of "createMockWallet None\<lparr>getERC20Balance := \<lambda>t a. Inr 1000000\<rparr>"
        "createMockPayload 130 (mockAuthorization\<lparr>auth_value := ''999999''\<rparr>)"
        mockPaymentRequirements 7 invalid_exact_evm_payload_authorization_value
        1000000 1000000 999999, THEN conjunct2, THEN conjunct2, THEN conjunct2]
    by (simp add: g mock_payload_simps mock_requirements_simps BigInt_fixtures)
  have 3: "snd (verify (createMockWallet None) (createMockPayload 130 mockAuthorization)
        (mockPaymentRequirements\<lparr>req_scheme := ''upto'', maxAmountRequired := ''x''\<rparr>))
       = Inr (reject unsupported_scheme ''0xabcdef1234567890123456789012345678901234'')"
    using s
      verify_earliest_failure[of "createMockWallet None"
        "createMockPayload 130 mockAuthorization"
        "mockPaymentRequirements\<lparr>req_scheme := ''upto'', maxAmountRequired := ''x''\<rparr>"
        0 unsupported_scheme, THEN conjunct2, THEN conjunct1]
    by (simp add: mock_payload_simps)
  from 1 2 3 s(2) mock_passes_6 show ?thesis by simp
qed

subsection \<open>C2: what happens when a read fails\<close>

lemma resolveDomain_getNetworkId:
  "getNetworkId client (network pp) = Inl e \<Longrightarrow> resolveDomain client pp req = ([], Inl e)"
  by (simp add: resolveDomain_def)

lemma resolveDomain_getVersion:
  assumes "getNetworkId client (network pp) = Inr cid"
    "Option.bind (extra req) extra_name = Some nm \<or> config client cid = Some c"
    "Option.bind (extra req) extra_version = None"
    "getVersion client = Inl e"
  shows "resolveDomain client pp req = ([GetVersion], Inl e)"
  using assms by (auto simp: resolveDomain_def logged_def split: option.splits)

lemma verify_throws_at:
  assumes "n < 9" "passes n client pp req" "snd (checks client pp req ! n) = Throw e"
  shows "snd (verify client pp req) = Inl e"
  using verify_at_check[OF assms(2) assms(1)] assms(3) by (simp add: answer_simps)

lemma length_checks: "length (checks client pp req) = 9"
  by (simp add: checks_def)

lemma first_Throw:
  "snd (runChecks cs) = Throw e \<Longrightarrow>
     \<exists>n < length cs. snd (runChecks (take n cs)) = Pass \<and> snd (cs ! n) = Throw e"
proof (induction cs)
  case Nil
  then show ?case by simp
next
  case (Cons c cs)
  obtain l r where c: "c = (l, r)" by (cases c)
  show ?case
  proof (cases r)
    case Pass
    with Cons.prems c have "snd (runChecks cs) = Throw e" by (simp add: logged_def)
    with Cons.IH obtain n where
      "n < length cs" "snd (runChecks (take n cs)) = Pass" "snd (cs ! n) = Throw e"
      by blast
    with c Pass show ?thesis
      by (intro exI[of _ "Suc n"]) (simp add: logged_def)
  next
    case (Reject x)
    with Cons.prems c show ?thesis by simp
  next
    case (Throw x)
    with Cons.prems c show ?thesis by (intro exI[of _ 0]) simp
  qed
qed

text \<open>
  C2, as the code has it. Only lines 82--93 are inside a \<^verbatim>\<open>try\<close>: a failure of network
  resolution, of the configuration lookup or of the on-chain version read is answered
  with \<open>invalid_network\<close>. The calls after line 93 are not caught: when verify reaches
  them, a failure of signature verification, of the balance query or of the bytecode
  query leaves verify as an exception, and so does any other throwing check. Every
  exception that leaves verify is the one thrown by the first check that did not pass,
  and a valid answer means that all nine checks passed: a failed read never yields
  \<open>isValid = true\<close>.
\<close>

theorem verify_failure_modes:
  "(scheme pp = SCHEME \<and> req_scheme req = SCHEME \<and> snd (resolveDomain client pp req) = Inl e
      \<longrightarrow> snd (verify client pp req) =
            Inr (reject invalid_network (auth_from (authorization (payload pp)))))
   \<and> (getNetworkId client (network pp) = Inl e
      \<longrightarrow> snd (resolveDomain client pp req) = Inl e)
   \<and> (getNetworkId client (network pp) = Inr cid
        \<and> Option.bind (extra req) extra_name = None \<and> config client cid = None
      \<longrightarrow> snd (resolveDomain client pp req) = Inl TypeError)
   \<and> (getNetworkId client (network pp) = Inr cid
        \<and> (Option.bind (extra req) extra_name = Some nm \<or> config client cid = Some c)
        \<and> Option.bind (extra req) extra_version = None
        \<and> getVersion client = Inl e
      \<longrightarrow> snd (resolveDomain client pp req) = Inl e)
   \<and> (passes 2 client pp req \<and> snd (resolveDomain client pp req) = Inr d
        \<and> verifyTypedData client (permitTypedData d (payload pp)) = Inl e
      \<longrightarrow> snd (verify client pp req) = Inl e)
   \<and> (passes 6 client pp req
        \<and> getERC20Balance client (asset req) (auth_from (authorization (payload pp))) = Inl e
      \<longrightarrow> snd (verify client pp req) = Inl e)
   \<and> (passes 8 client pp req
        \<and> SignatureShapeClassifier (signature (payload pp)) = ContractWallet
        \<and> getCode client 0 (auth_from (authorization (payload pp))) = Inl e
      \<longrightarrow> snd (verify client pp req) = Inl e)
   \<and> (snd (verify client pp req) = Inl e
      \<longrightarrow> (\<exists>n < 9. passes n client pp req \<and> snd (checks client pp req ! n) = Throw e))
   \<and> (snd (verify client pp req) = Inr v \<and> isValid v \<longrightarrow> passes 9 client pp req)"
proof (intro conjI impI)
  assume "scheme pp = SCHEME \<and> req_scheme req = SCHEME \<and> snd (resolveDomain client pp req) = Inl e"
  then show "snd (verify client pp req) =
            Inr (reject invalid_network (auth_from (authorization (payload pp))))"
    by (cases "resolveDomain client pp req") (simp add: verify_def)
next
  assume "getNetworkId client (network pp) = Inl e"
  then show "snd (resolveDomain client pp req) = Inl e"
    by (simp add: resolveDomain_getNetworkId)
next
  assume "getNetworkId client (network pp) = Inr cid
        \<and> Option.bind (extra req) extra_name = None \<and> config client cid = None"
  then show "snd (resolveDomain client pp req) = Inl TypeError"
    by (simp add: resolveDomain_def)
next
  assume "getNetworkId client (network pp) = Inr cid
        \<and> (Option.bind (extra req) extra_name = Some nm \<or> config client cid = Some c)
        \<and> Option.bind (extra req) extra_version = None
        \<and> getVersion client = Inl e"
  then show "snd (resolveDomain client pp req) = Inl e"
    using resolveDomain_getVersion[of client pp cid req nm c e] by simp
next
  assume "passes 2 client pp req \<and> snd (resolveDomain client pp req) = Inr d
        \<and> verifyTypedData client (permitTypedData d (payload pp)) = Inl e"
  then show "snd (verify client pp req) = Inl e"
    using verify_throws_at[of 2 client pp req e]
    by (simp add: checks_nth check_signature_def)
next
  assume "passes 6 client pp req
        \<and> getERC20Balance client (asset req) (auth_from (authorization (payload pp))) = Inl e"
  then show "snd (verify client pp req) = Inl e"
    using verify_throws_at[of 6 client pp req e]
    by (simp add: checks_nth check_balance_def)
next
  assume "passes 8 client pp req
        \<and> SignatureShapeClassifier (signature (payload pp)) = ContractWallet
        \<and> getCode client 0 (auth_from (authorization (payload pp))) = Inl e"
  then show "snd (verify client pp req) = Inl e"
    using verify_throws_at[of 8 client pp req e]
    by (simp add: checks_nth check_wallet_def)
next
  assume "snd (verify client pp req) = Inl e"
  then have t: "snd (runChecks (checks client pp req)) = Throw e"
    by (simp add: verify_checksFrom checksFrom_def answer_def split: CheckResult.splits)
  show "\<exists>n < 9. passes n client pp req \<and> snd (checks client pp req ! n) = Throw e"
    using t first_Throw[of "checks client pp req" e] by (simp add: passes_def length_checks)
next
  assume "snd (verify client pp req) = Inr v \<and> isValid v"
  then show "passes 9 client pp req"
    by (auto simp: verify_checksFrom checksFrom_def answer_def passes_def checks_def reject_def
        split: CheckResult.splits)
qed


text \<open>
  With the mocked wallet: a failing version read gives \<open>invalid_network\<close>; a failing
  signature verification, balance query or bytecode query reaches the caller.
\<close>

theorem verify_failure_modes_witness:
  "snd (verify (createMockWallet None\<lparr>getVersion := Inl (ClientError ''rpc'')\<rparr>)
        (createMockPayload 130 mockAuthorization) mockPaymentRequirements)
     = Inr (reject invalid_network ''0xabcdef1234567890123456789012345678901234'')
   \<and> snd (verify (createMockWallet None\<lparr>verifyTypedData := \<lambda>td. Inl (ClientError ''rpc'')\<rparr>)
        (createMockPayload 130 mockAuthorization) mockPaymentRequirements)
     = Inl (ClientError ''rpc'')
   \<and> snd (verify (createMockWallet None\<lparr>getERC20Balance := \<lambda>t a. Inl (ClientError ''rpc'')\<rparr>)
        (createMockPayload 130 mockAuthorization) mockPaymentRequirements)
     = Inl (ClientError ''rpc'')
   \<and> snd (verify (createMockWallet None\<lparr>getCode := \<lambda>k a. Inl (ClientError ''rpc'')\<rparr>)
        (createMockPayload 200 mockAuthorization) mockPaymentRequirements)
     = Inl (ClientError ''rpc'')
   \<and> passes 9 (createMockWallet None) (createMockPayload 130 mockAuthorization)
        mockPaymentRequirements"
proof -
  let ?pp = "createMockPayload 130 mockAuthorization"
  let ?e = "ClientError ''rpc''"
  have 1: "snd (verify (createMockWallet None\<lparr>getVersion := Inl ?e\<rparr>) ?pp mockPaymentRequirements)
     = Inr (reject invalid_network ''0xabcdef1234567890123456789012345678901234'')"
  proof -
    have "scheme ?pp = SCHEME" "req_scheme mockPaymentRequirements = SCHEME"
      "getNetworkId (createMockWallet None\<lparr>getVersion := Inl ?e\<rparr>) (network ?pp) = Inr 84532"
      "config (createMockWallet None\<lparr>getVersion := Inl ?e\<rparr>) 84532
         = Some \<lparr>usdcAddress = ''0x036CbD53842c5426634e7929541eC2318f3dCF7e'', usdcName = ''USDC''\<rparr>"
      "Option.bind (extra mockPaymentRequirements) extra_version = None"
      "getVersion (createMockWallet None\<lparr>getVersion := Inl ?e\<rparr>) = Inl ?e"
      by (simp_all add: createMockWallet_def createMockPayload_def mockPaymentRequirements_def
          SCHEME_def)
    then show ?thesis
      using verify_failure_modes[of ?pp mockPaymentRequirements
          "createMockWallet None\<lparr>getVersion := Inl ?e\<rparr>" ?e 84532 "''USDC''"
          "\<lparr>usdcAddress = ''0x036CbD53842c5426634e7929541eC2318f3dCF7e'', usdcName = ''USDC''\<rparr>"]
      by (simp add: mock_payload_simps)
  qed
  have p2: "passes 2 (createMockWallet None\<lparr>verifyTypedData := \<lambda>td. Inl ?e\<rparr>) ?pp
      mockPaymentRequirements"
    "passes 6 (createMockWallet None\<lparr>getERC20Balance := \<lambda>t a. Inl ?e\<rparr>) ?pp
      mockPaymentRequirements"
    "passes 8 (createMockWallet None\<lparr>getCode := \<lambda>k a. Inl ?e\<rparr>)
      (createMockPayload 200 mockAuthorization) mockPaymentRequirements"
    "SignatureShapeClassifier (signature (payload (createMockPayload 200 mockAuthorization)))
      = ContractWallet"
    "snd (resolveDomain (createMockWallet None\<lparr>verifyTypedData := \<lambda>td. Inl ?e\<rparr>) ?pp
      mockPaymentRequirements) = Inr \<lparr>name = ''USDC'', version = ''2'', chainId = 84532,
        verifyingContract = ''0x036CbD53842c5426634e7929541eC2318f3dCF7e''\<rparr>"
    by code_simp+
  have 2: "snd (verify (createMockWallet None\<lparr>verifyTypedData := \<lambda>td. Inl ?e\<rparr>) ?pp
      mockPaymentRequirements) = Inl ?e"
    using p2 verify_failure_modes[of ?pp mockPaymentRequirements
          "createMockWallet None\<lparr>verifyTypedData := \<lambda>td. Inl ?e\<rparr>" ?e _ _ _
          "\<lparr>name = ''USDC'', version = ''2'', chainId = 84532,
            verifyingContract = ''0x036CbD53842c5426634e7929541eC2318f3dCF7e''\<rparr>"]
    by (simp add: createMockWallet_def)
  have 3: "snd (verify (createMockWallet None\<lparr>getERC20Balance := \<lambda>t a. Inl ?e\<rparr>) ?pp
      mockPaymentRequirements) = Inl ?e"
    using p2 verify_failure_modes[of ?pp mockPaymentRequirements
          "createMockWallet None\<lparr>getERC20Balance := \<lambda>t a. Inl ?e\<rparr>" ?e]
    by (simp add: createMockWallet_def)
  have 4: "snd (verify (createMockWallet None\<lparr>getCode := \<lambda>k a. Inl ?e\<rparr>)
      (createMockPayload 200 mockAuthorization) mockPaymentRequirements) = Inl ?e"
    using p2 verify_failure_modes[of "createMockPayload 200 mockAuthorization"
          mockPaymentRequirements
          "createMockWallet None\<lparr>getCode := \<lambda>k a. Inl ?e\<rparr>" ?e]
    by (simp add: createMockWallet_def)
  have v: "snd (verify (createMockWallet None) ?pp mockPaymentRequirements)
      = Inr (accept ''0xabcdef1234567890123456789012345678901234'')"
    by code_simp
  have 5: "passes 9 (createMockWallet None) ?pp mockPaymentRequirements"
    using v verify_failure_modes[of ?pp mockPaymentRequirements "createMockWallet None" _ _ _ _ _
        "accept ''0xabcdef1234567890123456789012345678901234''"]
    by (simp add: accept_def)
  from 1 2 3 4 5 show ?thesis by simp
qed

text \<open>
  The claim as stated fails: with a balance query that throws, verify returns no
  VerifyResult; the exception reaches the caller.
\<close>

theorem verify_balance_failure_escapes:
  "snd (verify (createMockWallet None\<lparr>getERC20Balance := \<lambda>t a. Inl (ClientError ''rpc'')\<rparr>)
        (createMockPayload 130 mockAuthorization) mockPaymentRequirements)
     = Inl (ClientError ''rpc'')"
  by code_simp

subsection \<open>C5: the recipient check\<close>

text \<open>
  The normal form of an address determines its digits up to letter case, and nothing
  else: two addresses have the same normal form exactly when their lower-cased digits
  agree, whatever the hash.
\<close>

lemma hex_lower_upper:
  "isHexDigit c \<Longrightarrow> toLowerCase (toUpperCase (toLowerCase c)) = toLowerCase c"
  by (auto simp: isHexDigit_def) code_simp+

lemma hex_lower_lower:
  "isHexDigit c \<Longrightarrow> toLowerCase (toLowerCase c) = toLowerCase c"
  by (auto simp: isHexDigit_def) code_simp+

lemma checksumAddress_addressValue:
  "checksumAddress keccak a =
     ''0x'' @ map (\<lambda>i. if 8 \<le> keccak (addressValue a) i then toUpperCase (addressValue a ! i)
                        else addressValue a ! i) [0..<length (addressValue a)]"
  by (simp add: checksumAddress_def addressValue_def Let_def)

lemma addressValue_checksumAddress:
  assumes "isAddress a"
  shows "addressValue (checksumAddress keccak a) = addressValue a"
proof (rule nth_equalityI)
  show "length (addressValue (checksumAddress keccak a)) = length (addressValue a)"
    by (simp add: checksumAddress_addressValue) (simp add: addressValue_def)
next
  fix i
  assume "i < length (addressValue (checksumAddress keccak a))"
  then have i: "i < length (drop 2 a)"
    by (simp add: checksumAddress_addressValue) (simp add: addressValue_def)
  with assms have h: "isHexDigit (drop 2 a ! i)"
    by (simp add: isAddress_def list_all_length)
  from i have av: "addressValue a ! i = toLowerCase (drop 2 a ! i)"
    by (simp add: addressValue_def)
  have "addressValue (checksumAddress keccak a) ! i =
      toLowerCase (if 8 \<le> keccak (addressValue a) i then toUpperCase (addressValue a ! i)
                   else addressValue a ! i)"
    using i unfolding checksumAddress_addressValue
    by (simp add: addressValue_def[of "''0x'' @ _"]) (simp add: addressValue_def)
  then show "addressValue (checksumAddress keccak a) ! i = addressValue a ! i"
    using h by (simp add: av hex_lower_upper hex_lower_lower)
qed

lemma getAddress_eq_iff:
  assumes "isAddress a" "isAddress b"
  shows "getAddress keccak a = getAddress keccak b \<longleftrightarrow> addressValue a = addressValue b"
proof
  assume "getAddress keccak a = getAddress keccak b"
  with assms have "checksumAddress keccak a = checksumAddress keccak b"
    by (simp add: getAddress_def)
  then have "addressValue (checksumAddress keccak a) = addressValue (checksumAddress keccak b)"
    by simp
  with assms show "addressValue a = addressValue b"
    by (simp add: addressValue_checksumAddress)
next
  assume "addressValue a = addressValue b"
  with assms show "getAddress keccak a = getAddress keccak b"
    by (simp add: getAddress_def checksumAddress_addressValue)
qed


text \<open>
  C5, as the code has it. For an authorization that reaches the recipient check (the
  scheme, network and signature checks pass) with well-formed \<^verbatim>\<open>to\<close> and \<^verbatim>\<open>payTo\<close>
  addresses: when the two differ by address value (their digits differ even with letter
  case ignored), verify answers \<open>invalid_exact_evm_payload_recipient_mismatch\<close>; when
  they differ at most in letter case, the recipient check passes, verify's answer is
  that of the checks after it, and it is not the recipient mismatch.
\<close>

theorem verify_recipient:
  "passes 3 client pp req \<and> isAddress (auth_to (authorization (payload pp)))
     \<and> isAddress (payTo req) \<longrightarrow>
   (addressValue (auth_to (authorization (payload pp))) \<noteq> addressValue (payTo req) \<longrightarrow>
      snd (verify client pp req) =
        Inr (reject invalid_exact_evm_payload_recipient_mismatch
               (auth_from (authorization (payload pp)))))
   \<and> (addressValue (auth_to (authorization (payload pp))) = addressValue (payTo req) \<longrightarrow>
      snd (check_recipient client pp req) = Pass
      \<and> snd (checksFrom 4 client pp req) = snd (verify client pp req)
      \<and> snd (verify client pp req) \<noteq>
           Inr (reject invalid_exact_evm_payload_recipient_mismatch
                  (auth_from (authorization (payload pp)))))"
proof (intro impI)
  assume a: "passes 3 client pp req \<and> isAddress (auth_to (authorization (payload pp)))
     \<and> isAddress (payTo req)"
  let ?to = "auth_to (authorization (payload pp))"
  from a have eq: "(getAddress (keccak256_nibble client) ?to =
      getAddress (keccak256_nibble client) (payTo req))
      = (addressValue ?to = addressValue (payTo req))"
    by (simp add: getAddress_eq_iff)
  from a have r: "snd (check_recipient client pp req) =
      (if addressValue ?to = addressValue (payTo req) then Pass
       else Reject invalid_exact_evm_payload_recipient_mismatch)"
    using eq by (auto simp: check_recipient_def getAddress_def)
  have later: "snd (checksFrom 4 client pp req) \<noteq>
      Inr (reject invalid_exact_evm_payload_recipient_mismatch
             (auth_from (authorization (payload pp))))"
    using checksFrom_later_reason[of 3 client pp req] by (simp add: checkReasons_def)
  from a r later verify_at_check[of 3 client pp req]
  show "(addressValue ?to \<noteq> addressValue (payTo req) \<longrightarrow>
      snd (verify client pp req) =
        Inr (reject invalid_exact_evm_payload_recipient_mismatch
               (auth_from (authorization (payload pp)))))
   \<and> (addressValue ?to = addressValue (payTo req) \<longrightarrow>
      snd (check_recipient client pp req) = Pass
      \<and> snd (checksFrom 4 client pp req) = snd (verify client pp req)
      \<and> snd (verify client pp req) \<noteq>
           Inr (reject invalid_exact_evm_payload_recipient_mismatch
                  (auth_from (authorization (payload pp)))))"
    by (simp add: checks_nth answer_simps)
qed

lemma mock_passes_3:
  "passes 3 (createMockWallet None)
     (createMockPayload 130 (mockAuthorization\<lparr>auth_to := t\<rparr>))
     (mockPaymentRequirements\<lparr>payTo := p\<rparr>)"
  by code_simp

text \<open>
  With the requirements' \<^verbatim>\<open>payTo\<close> in lower case: the same digits in upper case are the
  same recipient, and verify goes on to accept; another last digit is a mismatch.
\<close>

theorem verify_recipient_witness:
  "passes 3 (createMockWallet None)
     (createMockPayload 130
        (mockAuthorization\<lparr>auth_to := ''0xABCDEF1234567890123456789012345678901234''\<rparr>))
     (mockPaymentRequirements\<lparr>payTo := ''0xabcdef1234567890123456789012345678901234''\<rparr>)
   \<and> isAddress ''0xABCDEF1234567890123456789012345678901234''
   \<and> isAddress ''0xabcdef1234567890123456789012345678901234''
   \<and> snd (verify (createMockWallet None)
        (createMockPayload 130
           (mockAuthorization\<lparr>auth_to := ''0xABCDEF1234567890123456789012345678901234''\<rparr>))
        (mockPaymentRequirements\<lparr>payTo := ''0xabcdef1234567890123456789012345678901234''\<rparr>))
      \<noteq> Inr (reject invalid_exact_evm_payload_recipient_mismatch
                 ''0xabcdef1234567890123456789012345678901234'')
   \<and> snd (verify (createMockWallet None)
        (createMockPayload 130
           (mockAuthorization\<lparr>auth_to := ''0xabcdef1234567890123456789012345678901235''\<rparr>))
        (mockPaymentRequirements\<lparr>payTo := ''0xabcdef1234567890123456789012345678901234''\<rparr>))
      = Inr (reject invalid_exact_evm_payload_recipient_mismatch
               ''0xabcdef1234567890123456789012345678901234'')"
proof -
  have h: "isAddress ''0xABCDEF1234567890123456789012345678901234''"
    "isAddress ''0xabcdef1234567890123456789012345678901234''"
    "isAddress ''0xabcdef1234567890123456789012345678901235''"
    "addressValue ''0xABCDEF1234567890123456789012345678901234''
       = addressValue ''0xabcdef1234567890123456789012345678901234''"
    "addressValue ''0xabcdef1234567890123456789012345678901235''
       \<noteq> addressValue ''0xabcdef1234567890123456789012345678901234''"
    by code_simp+
  show ?thesis
    using h mock_passes_3
      verify_recipient[of "createMockWallet None"
        "createMockPayload 130
           (mockAuthorization\<lparr>auth_to := ''0xABCDEF1234567890123456789012345678901234''\<rparr>)"
        "mockPaymentRequirements\<lparr>payTo := ''0xabcdef1234567890123456789012345678901234''\<rparr>"]
      verify_recipient[of "createMockWallet None"
        "createMockPayload 130
           (mockAuthorization\<lparr>auth_to := ''0xabcdef1234567890123456789012345678901235''\<rparr>)"
        "mockPaymentRequirements\<lparr>payTo := ''0xabcdef1234567890123456789012345678901234''\<rparr>"]
    by (simp add: mock_payload_simps mockAuthorization_def)
qed

text \<open>
  The claim as stated fails for an authorization that does not reach the recipient check:
  with another recipient and a signature that does not verify, the reason is the
  signature's.
\<close>

theorem recipient_mismatch_behind_signature:
  "isAddress ''0xabcdef1234567890123456789012345678901235''
   \<and> isAddress ''0x1234567890123456789012345678901234567890''
   \<and> addressValue ''0xabcdef1234567890123456789012345678901235''
       \<noteq> addressValue ''0x1234567890123456789012345678901234567890''
   \<and> snd (verify (createMockWallet None\<lparr>verifyTypedData := \<lambda>td. Inr False\<rparr>)
        (createMockPayload 130
           (mockAuthorization\<lparr>auth_to := ''0xabcdef1234567890123456789012345678901235''\<rparr>))
        mockPaymentRequirements)
      = Inr (reject invalid_exact_evm_payload_signature
               ''0xabcdef1234567890123456789012345678901234'')"
  by code_simp

section \<open>What settle submits\<close>

text \<open>
  verify submits nothing; the submission branch makes at most one
  \<^verbatim>\<open>transferWithAuthorization\<close> call on the asset, and a SettleResponse that comes after
  it carries the hash that call returned.
\<close>

lemma submissions_simps:
  "submissions [] = []"
  "submissions (a @ b) = submissions a @ submissions b"
  "submissions (WriteContract c # l) = c # submissions l"
  "submissions (GetVersion # l) = submissions l"
  "submissions (VerifyTypedData td # l) = submissions l"
  "submissions (GetERC20Balance t x # l) = submissions l"
  "submissions (GetCode x # l) = submissions l"
  "submissions (WaitForTransactionReceipt h # l) = submissions l"
  by (simp_all add: submissions_def)

lemma runChecks_submissions:
  "list_all (\<lambda>c. submissions (fst c) = []) cs \<Longrightarrow> submissions (fst (runChecks cs)) = []"
  by (induction cs rule: runChecks.induct) (simp_all add: logged_def submissions_simps)

lemma check_submissions:
  "submissions (fst (check_scheme client pp req)) = []"
  "submissions (fst (check_network client pp req)) = []"
  "submissions (fst (check_signature client pp req)) = []"
  "submissions (fst (check_recipient client pp req)) = []"
  "submissions (fst (check_valid_before client pp req)) = []"
  "submissions (fst (check_valid_after client pp req)) = []"
  "submissions (fst (check_balance client pp req)) = []"
  "submissions (fst (check_value client pp req)) = []"
  "submissions (fst (check_wallet client pp req)) = []"
  using fst_resolveDomain[of client pp req]
  by (auto simp: check_scheme_def check_network_def check_signature_def
      check_recipient_def check_valid_before_def check_valid_after_def check_balance_def
      check_value_def check_wallet_def submissions_simps split: sum.splits)

lemma verify_submissions: "submissions (fst (verify client pp req)) = []"
  using runChecks_submissions[of "checks client pp req"]
  by (simp add: verify_checksFrom checksFrom_def) (simp add: checks_def check_submissions)


lemma submitTransfer_cases:
  "(fst (submitTransfer w pp req) = [] \<and> (\<exists>e. snd (submitTransfer w pp req) = Inl e))
   \<or> (\<exists>call. fst (submitTransfer w pp req) = [WriteContract call]
        \<and> snd (submitTransfer w pp req) = writeContract w call
        \<and> functionName call = ''transferWithAuthorization''
        \<and> call_address call = asset req)"
proof (cases "transferAmounts (authorization (payload pp))")
  case (Inl e)
  then show ?thesis
    by (simp add: submitTransfer_def Let_def split: sum.splits)
next
  case (Inr amounts)
  obtain v va vb where "amounts = (v, va, vb)" by (cases amounts)
  with Inr show ?thesis
    by (simp add: submitTransfer_def Let_def split: sum.splits)
qed

lemma submitTransfer_eoa:
  assumes "\<not> isSmartWallet (signature (payload pp))"
    "call \<in> set (submissions (fst (submitTransfer w pp req)))"
  shows "case parseSignature w (signature (payload pp)) of
           Inl e \<Rightarrow> False
         | Inr parsedSig \<Rightarrow>
             recoveryIdArg (args call) =
               Some (case sig_v parsedSig of
                       Some v \<Rightarrow> Number_of_BigInt v
                     | None \<Rightarrow> Num (27 + yParity parsedSig))"
proof (cases "transferAmounts (authorization (payload pp))")
  case (Inl e)
  with assms show ?thesis
    by (simp add: submitTransfer_def Let_def submissions_simps split: sum.splits)
next
  case (Inr amounts)
  obtain v va vb where "amounts = (v, va, vb)" by (cases amounts)
  with Inr assms show ?thesis
    by (simp add: submitTransfer_def Let_def submissions_simps recoveryIdArg_def
        split: sum.splits)
qed


lemma submitAndWait_submissions:
  "submissions (fst (submitAndWait w pp req)) = submissions (fst (submitTransfer w pp req))"
proof (cases "submitTransfer w pp req")
  case (Pair l r)
  then show ?thesis
    by (cases r)
      (simp_all add: submitAndWait_def logged_def submissions_simps split: sum.splits)
qed

lemma submitAndWait_result:
  assumes "snd (submitAndWait w pp req) = Inr res"
  shows "map (writeContract w) (submissions (fst (submitAndWait w pp req)))
           = [Inr (transaction res)]
      \<and> (success res \<longrightarrow> errorReason res = None
            \<and> waitForTransactionReceipt w (transaction res) = Inr Success)
      \<and> (\<not> success res \<longrightarrow> errorReason res = Some invalid_transaction_state
            \<and> waitForTransactionReceipt w (transaction res) = Inr Reverted)"
proof -
  obtain l r where lr: "submitTransfer w pp req = (l, r)" by (cases "submitTransfer w pp req")
  with assms obtain tx where tx: "r = Inr tx"
    by (cases r) (simp_all add: submitAndWait_def)
  with lr submitTransfer_cases[of w pp req] obtain call where
    c: "l = [WriteContract call]" "writeContract w call = Inr tx"
    by auto
  from assms lr tx obtain status where st: "waitForTransactionReceipt w tx = Inr status"
    by (cases "waitForTransactionReceipt w tx") (simp_all add: submitAndWait_def logged_def)
  with assms lr tx have "transaction res = tx
      \<and> (success res \<longrightarrow> errorReason res = None \<and> status = Success)
      \<and> (\<not> success res \<longrightarrow> errorReason res = Some invalid_transaction_state
            \<and> status = Reverted)"
    by (cases status) (auto simp: submitAndWait_def logged_def failure_def)
  with lr c st show ?thesis
    by (simp add: submitAndWait_submissions submissions_simps)
qed

lemma settleAfterVerify_invalid:
  "\<not> isValid valid \<Longrightarrow>
     settleAfterVerify w pp req valid =
       ([], Inr (failure pp (case invalidReason valid of None \<Rightarrow> invalid_scheme | Some r \<Rightarrow> r) []))"
  by (simp add: settleAfterVerify_def)

lemma settle_verify_throws:
  "snd (verify w pp req) = Inl e \<Longrightarrow> settle w pp req = (fst (verify w pp req), Inl e)"
  by (cases "verify w pp req") (simp add: settle_def)

lemma settle_verify_returns:
  "snd (verify w pp req) = Inr valid \<Longrightarrow>
     settle w pp req =
       (fst (verify w pp req) @ fst (settleAfterVerify w pp req valid),
        snd (settleAfterVerify w pp req valid))"
  by (cases "verify w pp req") (simp add: settle_def logged_def)

subsection \<open>C6: settle after a failed re-verification\<close>

text \<open>
  C6. Whatever answer \<open>valid\<close> the re-invoked verifier gives, when it is not valid the
  rest of settle returns at once, with no chain call, a failure whose \<^verbatim>\<open>errorReason\<close> is
  the \<^verbatim>\<open>invalidReason\<close>, or \<open>invalid_scheme\<close> when that is absent, and whose transaction
  is empty. So when verify answers invalid, settle returns that failure, having made
  verify's calls only: no transaction is submitted.
\<close>

theorem settle_reverification_failure:
  "(\<not> isValid valid \<longrightarrow>
      settleAfterVerify w pp req valid =
        ([], Inr \<lparr>success = False,
                  errorReason =
                    Some (case invalidReason valid of None \<Rightarrow> invalid_scheme | Some r \<Rightarrow> r),
                  transaction = [], settle_network = network pp,
                  settle_payer = auth_from (authorization (payload pp))\<rparr>))
   \<and> (snd (verify w pp req) = Inr valid \<and> \<not> isValid valid \<longrightarrow>
      settle w pp req =
        (fst (verify w pp req),
         Inr \<lparr>success = False,
              errorReason =
                Some (case invalidReason valid of None \<Rightarrow> invalid_scheme | Some r \<Rightarrow> r),
              transaction = [], settle_network = network pp,
              settle_payer = auth_from (authorization (payload pp))\<rparr>)
      \<and> submissions (fst (settle w pp req)) = [])"
  using verify_submissions[of w pp req]
  by (auto simp: settleAfterVerify_invalid settle_verify_returns failure_def)


lemma mock_verify_undeployed:
  "snd (verify (createMockWallet (Some ''0x'')) (createMockPayload 200 mockAuthorization)
        mockPaymentRequirements)
     = Inr (reject invalid_exact_evm_payload_undeployed_smart_wallet
              ''0xabcdef1234567890123456789012345678901234'')"
  by code_simp

text \<open>
  The test's undeployed wallet: settle echoes verify's reason and submits nothing. An
  invalid answer without a reason becomes \<open>invalid_scheme\<close>.
\<close>

theorem settle_reverification_failure_witness:
  "snd (settle (createMockWallet (Some ''0x'')) (createMockPayload 200 mockAuthorization)
        mockPaymentRequirements)
     = Inr \<lparr>success = False,
            errorReason = Some invalid_exact_evm_payload_undeployed_smart_wallet,
            transaction = [], settle_network = ''base-sepolia'',
            settle_payer = ''0xabcdef1234567890123456789012345678901234''\<rparr>
   \<and> submissions (fst (settle (createMockWallet (Some ''0x''))
        (createMockPayload 200 mockAuthorization) mockPaymentRequirements)) = []
   \<and> snd (settleAfterVerify (createMockWallet (Some ''0x''))
        (createMockPayload 200 mockAuthorization) mockPaymentRequirements
        \<lparr>isValid = False, invalidReason = None, payer = []\<rparr>)
     = Inr \<lparr>success = False, errorReason = Some invalid_scheme,
            transaction = [], settle_network = ''base-sepolia'',
            settle_payer = ''0xabcdef1234567890123456789012345678901234''\<rparr>"
proof -
  let ?w = "createMockWallet (Some ''0x'')"
  let ?pp = "createMockPayload 200 mockAuthorization"
  have n: "network ?pp = ''base-sepolia''"
    by (simp add: createMockPayload_def)
  have 1: "settle ?w ?pp mockPaymentRequirements =
        (fst (verify ?w ?pp mockPaymentRequirements),
         Inr \<lparr>success = False,
              errorReason = Some invalid_exact_evm_payload_undeployed_smart_wallet,
              transaction = [], settle_network = ''base-sepolia'',
              settle_payer = ''0xabcdef1234567890123456789012345678901234''\<rparr>)
      \<and> submissions (fst (settle ?w ?pp mockPaymentRequirements)) = []"
    using mock_verify_undeployed
      settle_reverification_failure[of
        "reject invalid_exact_evm_payload_undeployed_smart_wallet
           ''0xabcdef1234567890123456789012345678901234''"
        ?w ?pp mockPaymentRequirements, THEN conjunct2]
    by (simp add: reject_def n mock_payload_simps verify_submissions)
  have 2: "snd (settleAfterVerify ?w ?pp mockPaymentRequirements
        \<lparr>isValid = False, invalidReason = None, payer = []\<rparr>)
     = Inr \<lparr>success = False, errorReason = Some invalid_scheme,
            transaction = [], settle_network = ''base-sepolia'',
            settle_payer = ''0xabcdef1234567890123456789012345678901234''\<rparr>"
    using settle_reverification_failure[of "\<lparr>isValid = False, invalidReason = None, payer = []\<rparr>"
        ?w ?pp mockPaymentRequirements, THEN conjunct1]
    by (simp add: n mock_payload_simps)
  from 1 2 show ?thesis by (simp add: verify_submissions)
qed

lemma settleAfterVerify_submissions:
  "submissions (fst (settleAfterVerify w pp req valid)) = [] \<or>
   submissions (fst (settleAfterVerify w pp req valid)) = submissions (fst (submitTransfer w pp req))"
  by (auto simp: settleAfterVerify_def Let_def logged_def submissions_simps
      submitAndWait_submissions split: sum.splits)

lemma settle_submissions_cases:
  "submissions (fst (settle w pp req)) = [] \<or>
   submissions (fst (settle w pp req)) = submissions (fst (submitTransfer w pp req))"
proof (cases "snd (verify w pp req)")
  case (Inl e)
  then show ?thesis by (simp add: settle_verify_throws verify_submissions)
next
  case (Inr valid)
  then show ?thesis
    using settleAfterVerify_submissions[of w pp req valid]
    by (auto simp: settle_verify_returns submissions_simps verify_submissions)
qed

lemma settle_submissions:
  "submissions (fst (settle w pp req)) = [] \<or>
   (\<exists>call. submissions (fst (settle w pp req)) = [call]
      \<and> functionName call = ''transferWithAuthorization'' \<and> call_address call = asset req)"
  using settle_submissions_cases[of w pp req] submitTransfer_cases[of w pp req]
  by (auto simp: submissions_simps)

lemma verify_valid_passes:
  assumes "snd (verify client pp req) = Inr v" "isValid v"
  shows "snd (runChecks (checks client pp req)) = Pass"
  using assms
  by (auto simp: verify_checksFrom checksFrom_def answer_def reject_def split: CheckResult.splits)

subsection \<open>C7: an undeployed wallet without deployment metadata\<close>

text \<open>
  C7, as the code has it. Take an authorization classified ContractWallet, whose account
  has empty bytecode when verify reads it and whose signature, parsed as an EIP-6492
  wrapper, carries no factory address or no call data. Then the wallet check rejects it
  with \<open>invalid_exact_evm_payload_undeployed_smart_wallet\<close>; that is verify's answer
  when the eight checks before pass, and in every case verify does not answer valid; and
  settle submits no transaction for it.
\<close>

theorem undeployed_wallet_rejected:
  "SignatureShapeClassifier (signature (payload pp)) = ContractWallet
     \<and> getCode client 0 (auth_from (authorization (payload pp))) = Inr bytecode
     \<and> emptyBytecode bytecode
     \<and> parseErc6492Signature client (signature (payload pp)) = Inr wrapper
     \<and> \<not> hasDeploymentInfo wrapper \<longrightarrow>
   snd (check_wallet client pp req) = Reject invalid_exact_evm_payload_undeployed_smart_wallet
   \<and> (passes 8 client pp req \<longrightarrow>
        snd (verify client pp req) =
          Inr (reject invalid_exact_evm_payload_undeployed_smart_wallet
                 (auth_from (authorization (payload pp)))))
   \<and> (\<forall>v. snd (verify client pp req) = Inr v \<longrightarrow> \<not> isValid v)
   \<and> submissions (fst (settle client pp req)) = []"
proof (intro impI)
  assume a: "SignatureShapeClassifier (signature (payload pp)) = ContractWallet
     \<and> getCode client 0 (auth_from (authorization (payload pp))) = Inr bytecode
     \<and> emptyBytecode bytecode
     \<and> parseErc6492Signature client (signature (payload pp)) = Inr wrapper
     \<and> \<not> hasDeploymentInfo wrapper"
  then have w: "snd (check_wallet client pp req) =
      Reject invalid_exact_evm_payload_undeployed_smart_wallet"
    by (simp add: check_wallet_def)
  have r: "passes 8 client pp req \<longrightarrow>
        snd (verify client pp req) =
          Inr (reject invalid_exact_evm_payload_undeployed_smart_wallet
                 (auth_from (authorization (payload pp))))"
    using w verify_at_check[of 8 client pp req] by (simp add: checks_nth answer_simps)
  have n: "\<not> isValid v" if "snd (verify client pp req) = Inr v" for v
  proof
    assume "isValid v"
    with that have "snd (runChecks (checks client pp req)) = Pass"
      by (rule verify_valid_passes)
    then have "snd (check_wallet client pp req) = Pass"
      by (rule runChecks_Pass) (simp add: checks_def)
    with w show False by simp
  qed
  have s: "submissions (fst (settle client pp req)) = []"
  proof (cases "snd (verify client pp req)")
    case (Inl e)
    then show ?thesis by (simp add: settle_verify_throws verify_submissions)
  next
    case (Inr v)
    with n have "\<not> isValid v" by simp
    with Inr show ?thesis
      by (simp add: settle_verify_returns settleAfterVerify_invalid submissions_simps
          verify_submissions)
  qed
  from w r n s show "snd (check_wallet client pp req) =
      Reject invalid_exact_evm_payload_undeployed_smart_wallet
   \<and> (passes 8 client pp req \<longrightarrow>
        snd (verify client pp req) =
          Inr (reject invalid_exact_evm_payload_undeployed_smart_wallet
                 (auth_from (authorization (payload pp)))))
   \<and> (\<forall>v. snd (verify client pp req) = Inr v \<longrightarrow> \<not> isValid v)
   \<and> submissions (fst (settle client pp req)) = []"
    by blast
qed


lemma mock_smart_wallet:
  "SignatureShapeClassifier (signature (payload (createMockPayload 200 auth))) = ContractWallet"
  "SignatureShapeClassifier (signature (payload (createMockPayload 256 auth))) = ContractWallet"
  "SignatureShapeClassifier (signature (payload (createMockPayload 130 auth))) = EOA"
  by code_simp+

lemma mock_passes_8:
  "passes 8 (createMockWallet bytecode) (createMockPayload n mockAuthorization)
     mockPaymentRequirements"
  "passes 8 (createMockWallet bytecode\<lparr>parseErc6492Signature := f\<rparr>)
     (createMockPayload n mockAuthorization) mockPaymentRequirements"
  "passes 8 (createMockWallet bytecode\<lparr>parseErc6492Signature := f, getCode := g\<rparr>)
     (createMockPayload n mockAuthorization) mockPaymentRequirements"
  by code_simp+

lemma mock_wallet_simps:
  "getCode (createMockWallet bytecode) = (\<lambda>k a. Inr bytecode)"
  "parseErc6492Signature (createMockWallet bytecode) =
     (\<lambda>s. Inr \<lparr>erc6492_address = None, erc6492_data = None, erc6492_signature = s\<rparr>)"
  by (simp_all add: createMockWallet_def)

text \<open>
  The test's undeployed wallet (a signature of 200 characters, bytecode \<^verbatim>\<open>0x\<close>, no
  wrapper): verify answers the undeployed reason and settle submits nothing; the same
  with an expired deadline is still never submitted.
\<close>

theorem undeployed_wallet_rejected_witness:
  "passes 8 (createMockWallet (Some ''0x'')) (createMockPayload 200 mockAuthorization)
     mockPaymentRequirements
   \<and> emptyBytecode (Some ''0x'')
   \<and> snd (verify (createMockWallet (Some ''0x'')) (createMockPayload 200 mockAuthorization)
        mockPaymentRequirements)
     = Inr (reject invalid_exact_evm_payload_undeployed_smart_wallet
              ''0xabcdef1234567890123456789012345678901234'')
   \<and> submissions (fst (settle (createMockWallet (Some ''0x''))
        (createMockPayload 200 mockAuthorization) mockPaymentRequirements)) = []
   \<and> submissions (fst (settle (createMockWallet None)
        (createMockPayload 200 (mockAuthorization\<lparr>validBefore := ''0''\<rparr>))
        mockPaymentRequirements)) = []"
proof -
  have e: "emptyBytecode (Some ''0x'')" "emptyBytecode None"
    "\<not> hasDeploymentInfo \<lparr>erc6492_address = None, erc6492_data = None, erc6492_signature = s\<rparr>"
    for s
    by (simp_all add: emptyBytecode_def hasDeploymentInfo_def truthy_def)
  have 1: "snd (verify (createMockWallet (Some ''0x'')) (createMockPayload 200 mockAuthorization)
        mockPaymentRequirements)
     = Inr (reject invalid_exact_evm_payload_undeployed_smart_wallet
              ''0xabcdef1234567890123456789012345678901234'')
    \<and> submissions (fst (settle (createMockWallet (Some ''0x''))
        (createMockPayload 200 mockAuthorization) mockPaymentRequirements)) = []"
    using e mock_smart_wallet mock_passes_8(1)
      undeployed_wallet_rejected[of "createMockPayload 200 mockAuthorization"
        "createMockWallet (Some ''0x'')" "Some ''0x''"
        "\<lparr>erc6492_address = None, erc6492_data = None,
          erc6492_signature = signature (payload (createMockPayload 200 mockAuthorization))\<rparr>"
        mockPaymentRequirements]
    by (simp add: mock_wallet_simps mock_payload_simps)
  have 2: "submissions (fst (settle (createMockWallet None)
        (createMockPayload 200 (mockAuthorization\<lparr>validBefore := ''0''\<rparr>))
        mockPaymentRequirements)) = []"
    using e mock_smart_wallet
      undeployed_wallet_rejected[of
        "createMockPayload 200 (mockAuthorization\<lparr>validBefore := ''0''\<rparr>)"
        "createMockWallet None" None
        "\<lparr>erc6492_address = None, erc6492_data = None,
          erc6492_signature = signature (payload
            (createMockPayload 200 (mockAuthorization\<lparr>validBefore := ''0''\<rparr>)))\<rparr>"
        mockPaymentRequirements]
    by (simp add: mock_wallet_simps mock_payload_simps)
  from 1 2 e mock_passes_8(1) show ?thesis by simp
qed

text \<open>
  The claim as stated fails when an earlier check fails too: the same undeployed wallet
  with an expired \<^verbatim>\<open>validBefore\<close> is rejected with the valid-before reason.
\<close>

theorem undeployed_wallet_behind_deadline:
  "SignatureShapeClassifier (signature (payload
       (createMockPayload 200 (mockAuthorization\<lparr>validBefore := ''0''\<rparr>)))) = ContractWallet
   \<and> getCode (createMockWallet (Some ''0x'')) 0 ''0xabcdef1234567890123456789012345678901234''
       = Inr (Some ''0x'')
   \<and> emptyBytecode (Some ''0x'')
   \<and> (case parseErc6492Signature (createMockWallet (Some ''0x''))
              (signature (payload
                 (createMockPayload 200 (mockAuthorization\<lparr>validBefore := ''0''\<rparr>)))) of
         Inl e \<Rightarrow> False
       | Inr wrapper \<Rightarrow> \<not> hasDeploymentInfo wrapper)
   \<and> snd (verify (createMockWallet (Some ''0x''))
        (createMockPayload 200 (mockAuthorization\<lparr>validBefore := ''0''\<rparr>))
        mockPaymentRequirements)
      = Inr (reject invalid_exact_evm_payload_authorization_valid_before
               ''0xabcdef1234567890123456789012345678901234'')"
  by code_simp

subsection \<open>C8: an undeployed wallet with deployment metadata\<close>

lemma submitAndWait_not_undeployed:
  "snd (submitAndWait w pp req) \<noteq>
     Inr (failure pp invalid_exact_evm_payload_undeployed_smart_wallet [])"
proof
  assume "snd (submitAndWait w pp req) =
     Inr (failure pp invalid_exact_evm_payload_undeployed_smart_wallet [])"
  from submitAndWait_result[OF this] show False by (simp add: failure_def)
qed

text \<open>
  C8, as the code has it. Take an authorization classified ContractWallet that passes the
  eight checks before the wallet check, whose account has empty bytecode when verify
  reads it and whose signature, parsed as an EIP-6492 wrapper, carries a factory address
  and call data. Then the wallet check passes and verify answers valid. settle, after
  that re-verification, reads the bytecode again and returns the failure
  \<open>invalid_exact_evm_payload_undeployed_smart_wallet\<close> exactly when this second read is
  empty. Whatever settle submits is a \<^verbatim>\<open>transferWithAuthorization\<close> call on the asset:
  it never calls a factory.
\<close>

theorem counterfactual_wallet:
  "SignatureShapeClassifier (signature (payload pp)) = ContractWallet
     \<and> passes 8 w pp req
     \<and> getCode w 0 (auth_from (authorization (payload pp))) = Inr bytecode
     \<and> emptyBytecode bytecode
     \<and> parseErc6492Signature w (signature (payload pp)) = Inr wrapper
     \<and> hasDeploymentInfo wrapper \<longrightarrow>
   snd (check_wallet w pp req) = Pass
   \<and> snd (verify w pp req) = Inr (accept (auth_from (authorization (payload pp))))
   \<and> (snd (settle w pp req) =
         Inr (failure pp invalid_exact_evm_payload_undeployed_smart_wallet []))
      = (case getCode w 1 (auth_from (authorization (payload pp))) of
           Inl e \<Rightarrow> False
         | Inr bytecode' \<Rightarrow> emptyBytecode bytecode')
   \<and> list_all (\<lambda>call. functionName call = ''transferWithAuthorization''
                  \<and> call_address call = asset req)
        (submissions (fst (settle w pp req)))"
proof (intro impI)
  assume a: "SignatureShapeClassifier (signature (payload pp)) = ContractWallet
     \<and> passes 8 w pp req
     \<and> getCode w 0 (auth_from (authorization (payload pp))) = Inr bytecode
     \<and> emptyBytecode bytecode
     \<and> parseErc6492Signature w (signature (payload pp)) = Inr wrapper
     \<and> hasDeploymentInfo wrapper"
  then have c: "snd (check_wallet w pp req) = Pass"
    by (simp add: check_wallet_def)
  with a have v: "snd (verify w pp req) = Inr (accept (auth_from (authorization (payload pp))))"
    using verify_at_check[of 8 w pp req]
    by (simp add: checks_nth checksFrom_def checks_def answer_simps)
  from a have sw: "isSmartWallet (signature (payload pp))"
    by (simp add: SignatureShapeClassifier_def split: if_splits)
  have s: "(snd (settle w pp req) =
         Inr (failure pp invalid_exact_evm_payload_undeployed_smart_wallet []))
      = (case getCode w 1 (auth_from (authorization (payload pp))) of
           Inl e \<Rightarrow> False
         | Inr bytecode' \<Rightarrow> emptyBytecode bytecode')"
    using sw submitAndWait_not_undeployed[of w pp req]
    by (simp add: settle_verify_returns[OF v] settleAfterVerify_def accept_def logged_def
        split: sum.splits)
  have l: "list_all (\<lambda>call. functionName call = ''transferWithAuthorization''
                  \<and> call_address call = asset req)
        (submissions (fst (settle w pp req)))"
    using settle_submissions[of w pp req] by auto
  from c v s l show "snd (check_wallet w pp req) = Pass
   \<and> snd (verify w pp req) = Inr (accept (auth_from (authorization (payload pp))))
   \<and> (snd (settle w pp req) =
         Inr (failure pp invalid_exact_evm_payload_undeployed_smart_wallet []))
      = (case getCode w 1 (auth_from (authorization (payload pp))) of
           Inl e \<Rightarrow> False
         | Inr bytecode' \<Rightarrow> emptyBytecode bytecode')
   \<and> list_all (\<lambda>call. functionName call = ''transferWithAuthorization''
                  \<and> call_address call = asset req)
        (submissions (fst (settle w pp req)))"
    by blast
qed

text \<open>
  The test's wrapped signature on an account whose bytecode is \<^verbatim>\<open>0x\<close>: verify accepts
  it; settle fails when the second read is still \<^verbatim>\<open>0x\<close>, and does not fail that way
  when the wallet has been deployed in between.
\<close>

theorem counterfactual_wallet_witness:
  "passes 8 (createMockWallet (Some ''0x'')\<lparr>parseErc6492Signature := eip6492\<rparr>)
     (createMockPayload 200 mockAuthorization) mockPaymentRequirements
   \<and> snd (verify (createMockWallet (Some ''0x'')\<lparr>parseErc6492Signature := eip6492\<rparr>)
        (createMockPayload 200 mockAuthorization) mockPaymentRequirements)
     = Inr (accept ''0xabcdef1234567890123456789012345678901234'')
   \<and> snd (settle (createMockWallet (Some ''0x'')\<lparr>parseErc6492Signature := eip6492\<rparr>)
        (createMockPayload 200 mockAuthorization) mockPaymentRequirements)
     = Inr (failure (createMockPayload 200 mockAuthorization)
              invalid_exact_evm_payload_undeployed_smart_wallet [])
   \<and> snd (settle
        (createMockWallet (Some ''0x'')
           \<lparr>parseErc6492Signature := eip6492,
            getCode := \<lambda>k a. Inr (Some (if k = 0 then ''0x'' else ''0x6080''))\<rparr>)
        (createMockPayload 200 mockAuthorization) mockPaymentRequirements)
     \<noteq> Inr (failure (createMockPayload 200 mockAuthorization)
              invalid_exact_evm_payload_undeployed_smart_wallet [])"
proof -
  let ?pp = "createMockPayload 200 mockAuthorization"
  let ?w = "createMockWallet (Some ''0x'')\<lparr>parseErc6492Signature := eip6492\<rparr>"
  let ?w' = "createMockWallet (Some ''0x'')
           \<lparr>parseErc6492Signature := eip6492,
            getCode := \<lambda>k a. Inr (Some (if k = 0 then ''0x'' else ''0x6080''))\<rparr>"
  let ?wrapper = "\<lparr>erc6492_address = Some ''0xFactoryAddress000000000000000000000000'',
          erc6492_data = Some ''0xfactoryCa11data'',
          erc6492_signature = signature (payload ?pp)\<rparr>"
  have e: "emptyBytecode (Some ''0x'')" "\<not> emptyBytecode (Some ''0x6080'')"
    "hasDeploymentInfo ?wrapper"
    by (simp_all add: emptyBytecode_def hasDeploymentInfo_def truthy_def)
  have g: "getCode ?w = (\<lambda>k a. Inr (Some ''0x''))"
    "getCode ?w' = (\<lambda>k a. Inr (Some (if k = 0 then ''0x'' else ''0x6080'')))"
    "parseErc6492Signature ?w = eip6492" "parseErc6492Signature ?w' = eip6492"
    by (simp_all add: createMockWallet_def)
  have 1: "snd (verify ?w ?pp mockPaymentRequirements)
       = Inr (accept ''0xabcdef1234567890123456789012345678901234'')
     \<and> snd (settle ?w ?pp mockPaymentRequirements)
       = Inr (failure ?pp invalid_exact_evm_payload_undeployed_smart_wallet [])"
    using e mock_smart_wallet(1) mock_passes_8(2)
      counterfactual_wallet[of ?pp ?w mockPaymentRequirements "Some ''0x''" ?wrapper]
    by (simp add: g eip6492_def mock_payload_simps)
  have 2: "snd (settle ?w' ?pp mockPaymentRequirements)
       \<noteq> Inr (failure ?pp invalid_exact_evm_payload_undeployed_smart_wallet [])"
    using e mock_smart_wallet(1) mock_passes_8(3)
      counterfactual_wallet[of ?pp ?w' mockPaymentRequirements "Some ''0x''" ?wrapper]
    by (simp add: g eip6492_def mock_payload_simps)
  from 1 2 mock_passes_8(2) show ?thesis by simp
qed

text \<open>
  The claim as stated fails when an earlier check fails: the same wrapped signature on an
  account without funds is rejected with \<open>insufficient_funds\<close>.
\<close>

theorem counterfactual_wallet_without_funds:
  "SignatureShapeClassifier (signature (payload (createMockPayload 200 mockAuthorization)))
       = ContractWallet
   \<and> getCode (createMockWallet (Some ''0x'')
        \<lparr>parseErc6492Signature := eip6492, getERC20Balance := \<lambda>t a. Inr 0\<rparr>) 0
        ''0xabcdef1234567890123456789012345678901234'' = Inr (Some ''0x'')
   \<and> emptyBytecode (Some ''0x'')
   \<and> (case eip6492 (signature (payload (createMockPayload 200 mockAuthorization))) of
         Inl e \<Rightarrow> False
       | Inr wrapper \<Rightarrow> hasDeploymentInfo wrapper)
   \<and> snd (verify (createMockWallet (Some ''0x'')
        \<lparr>parseErc6492Signature := eip6492, getERC20Balance := \<lambda>t a. Inr 0\<rparr>)
        (createMockPayload 200 mockAuthorization) mockPaymentRequirements)
      = Inr (reject insufficient_funds ''0xabcdef1234567890123456789012345678901234'')"
  by code_simp

subsection \<open>C9: the recovery id of the EOA call\<close>

lemma Number_of_BigInt_safe: "\<bar>v\<bar> \<le> 2 ^ 53 \<Longrightarrow> Number_of_BigInt v = Num v"
  by (simp add: Number_of_BigInt_def)

text \<open>
  C9. For an authorization classified EOA, every call that settle submits is the
  scalar-triple call built from the decomposed signature, and its recovery-id argument is
  \<^verbatim>\<open>Number(v)\<close> when the decomposed signature has a recovery id \<open>v\<close>, which is \<open>v\<close>
  itself for every \<open>v\<close> up to \<open>2^53\<close> in absolute value, and 27 plus the parity bit
  otherwise.
\<close>

theorem settle_eoa_recovery_id:
  "SignatureShapeClassifier (signature (payload pp)) = EOA
     \<and> call \<in> set (submissions (fst (settle w pp req))) \<longrightarrow>
   (case parseSignature w (signature (payload pp)) of
      Inl e \<Rightarrow> False
    | Inr parsedSig \<Rightarrow>
        (case sig_v parsedSig of
           Some v \<Rightarrow>
             recoveryIdArg (args call) = Some (Number_of_BigInt v)
             \<and> (\<bar>v\<bar> \<le> 2 ^ 53 \<longrightarrow> recoveryIdArg (args call) = Some (Num v))
         | None \<Rightarrow> recoveryIdArg (args call) = Some (Num (27 + yParity parsedSig))))"
proof (intro impI)
  assume a: "SignatureShapeClassifier (signature (payload pp)) = EOA
     \<and> call \<in> set (submissions (fst (settle w pp req)))"
  then have n: "\<not> isSmartWallet (signature (payload pp))"
    by (simp add: SignatureShapeClassifier_def split: if_splits)
  from a have "call \<in> set (submissions (fst (submitTransfer w pp req)))"
    using settle_submissions_cases[of w pp req] by auto
  from submitTransfer_eoa[OF n this]
  show "case parseSignature w (signature (payload pp)) of
      Inl e \<Rightarrow> False
    | Inr parsedSig \<Rightarrow>
        (case sig_v parsedSig of
           Some v \<Rightarrow>
             recoveryIdArg (args call) = Some (Number_of_BigInt v)
             \<and> (\<bar>v\<bar> \<le> 2 ^ 53 \<longrightarrow> recoveryIdArg (args call) = Some (Num v))
         | None \<Rightarrow> recoveryIdArg (args call) = Some (Num (27 + yParity parsedSig)))"
    by (auto simp: Number_of_BigInt_safe split: sum.splits option.splits)
qed


lemma mock_parseSignature:
  "parseSignature (createMockWallet bytecode\<lparr>parseSignature := f\<rparr>) = f"
  by (simp add: createMockWallet_def)

text \<open>
  The three cases of the test: recovery id 28 present; absent with parity 0; absent with
  parity 1.
\<close>

theorem settle_eoa_recovery_id_witness:
  "map (\<lambda>call. recoveryIdArg (args call))
     (submissions (fst (settle
        (createMockWallet None\<lparr>parseSignature :=
           \<lambda>s. Inr \<lparr>sig_r = ''0x12'', sig_s = ''0xab'', sig_v = Some 28, yParity = 1\<rparr>\<rparr>)
        (createMockPayload 130 mockAuthorization) mockPaymentRequirements)))
     = [Some (Num 28)]
   \<and> map (\<lambda>call. recoveryIdArg (args call))
     (submissions (fst (settle
        (createMockWallet None\<lparr>parseSignature :=
           \<lambda>s. Inr \<lparr>sig_r = ''0x12'', sig_s = ''0xab'', sig_v = None, yParity = 0\<rparr>\<rparr>)
        (createMockPayload 130 mockAuthorization) mockPaymentRequirements)))
     = [Some (Num 27)]
   \<and> map (\<lambda>call. recoveryIdArg (args call))
     (submissions (fst (settle
        (createMockWallet None\<lparr>parseSignature :=
           \<lambda>s. Inr \<lparr>sig_r = ''0x12'', sig_s = ''0xab'', sig_v = None, yParity = 1\<rparr>\<rparr>)
        (createMockPayload 130 mockAuthorization) mockPaymentRequirements)))
     = [Some (Num 28)]"
proof -
  let ?pp = "createMockPayload 130 mockAuthorization"
  have one: "\<exists>call. submissions (fst (settle (createMockWallet None\<lparr>parseSignature := f\<rparr>) ?pp
      mockPaymentRequirements)) = [call]"
    if "submissions (fst (settle (createMockWallet None\<lparr>parseSignature := f\<rparr>) ?pp
      mockPaymentRequirements)) \<noteq> []" for f
    using that settle_submissions[of "createMockWallet None\<lparr>parseSignature := f\<rparr>" ?pp
        mockPaymentRequirements]
    by auto
  have ne: "submissions (fst (settle
        (createMockWallet None\<lparr>parseSignature := \<lambda>s. Inr ps\<rparr>) ?pp
        mockPaymentRequirements)) \<noteq> []" for ps
    by code_simp
  have r: "map (\<lambda>call. recoveryIdArg (args call))
     (submissions (fst (settle (createMockWallet None\<lparr>parseSignature := \<lambda>s. Inr ps\<rparr>) ?pp
        mockPaymentRequirements)))
     = [Some (case sig_v ps of Some v \<Rightarrow> Number_of_BigInt v | None \<Rightarrow> Num (27 + yParity ps))]"
    for ps
  proof -
    from one[OF ne] obtain call where
      c: "submissions (fst (settle (createMockWallet None\<lparr>parseSignature := \<lambda>s. Inr ps\<rparr>) ?pp
        mockPaymentRequirements)) = [call]"
      by blast
    with mock_smart_wallet(3)
      settle_eoa_recovery_id[of ?pp call
        "createMockWallet None\<lparr>parseSignature := \<lambda>s. Inr ps\<rparr>" mockPaymentRequirements]
    show ?thesis
      by (simp add: mock_parseSignature split: option.splits)
  qed
  show ?thesis
    by (simp add: r Number_of_BigInt_safe)
qed

subsection \<open>C10: the shape of a SettleResponse\<close>

lemma settleAfterVerify_result:
  assumes "snd (settleAfterVerify w pp req valid) = Inr res"
  shows "(\<exists>r. res = failure pp r [] \<and> fst (settleAfterVerify w pp req valid) \<in> {[], [GetCode (auth_from (authorization (payload pp)))]})
    \<or> (snd (submitAndWait w pp req) = Inr res
        \<and> submissions (fst (settleAfterVerify w pp req valid))
            = submissions (fst (submitAndWait w pp req)))"
  using assms
  by (auto simp: settleAfterVerify_def Let_def logged_def submissions_simps
      split: if_splits sum.splits)

text \<open>
  C10. Every SettleResponse that settle returns is of one of three shapes. With
  \<open>success = true\<close> it has no \<^verbatim>\<open>errorReason\<close>, and its transaction is the hash returned
  by the one \<^verbatim>\<open>writeContract\<close> call settle made. A failure returned when nothing has
  been submitted has the empty string as transaction, and so has every failure whose
  reason is not \<open>invalid_transaction_state\<close>. A failure with a non-empty transaction
  has the reason \<open>invalid_transaction_state\<close>: its transaction is the hash of the one
  submitted call, whose receipt was not a success.
\<close>

theorem settle_result_shape:
  "snd (settle w pp req) = Inr res \<longrightarrow>
   (success res \<longrightarrow>
      errorReason res = None
      \<and> map (writeContract w) (submissions (fst (settle w pp req))) = [Inr (transaction res)])
   \<and> (\<not> success res \<and> submissions (fst (settle w pp req)) = [] \<longrightarrow> transaction res = [])
   \<and> (\<not> success res \<and> errorReason res \<noteq> Some invalid_transaction_state \<longrightarrow>
        transaction res = [] \<and> submissions (fst (settle w pp req)) = [])
   \<and> (\<not> success res \<and> transaction res \<noteq> [] \<longrightarrow>
        errorReason res = Some invalid_transaction_state
        \<and> map (writeContract w) (submissions (fst (settle w pp req))) = [Inr (transaction res)]
        \<and> waitForTransactionReceipt w (transaction res) = Inr Reverted)"
proof (intro impI)
  assume a: "snd (settle w pp req) = Inr res"
  then obtain valid where v: "snd (verify w pp req) = Inr valid"
    by (cases "snd (verify w pp req)") (simp_all add: settle_verify_throws)
  with a have r: "snd (settleAfterVerify w pp req valid) = Inr res"
    and l: "submissions (fst (settle w pp req))
              = submissions (fst (settleAfterVerify w pp req valid))"
    by (simp_all add: settle_verify_returns submissions_simps verify_submissions)
  from settleAfterVerify_result[OF r]
  show "(success res \<longrightarrow>
      errorReason res = None
      \<and> map (writeContract w) (submissions (fst (settle w pp req))) = [Inr (transaction res)])
   \<and> (\<not> success res \<and> submissions (fst (settle w pp req)) = [] \<longrightarrow> transaction res = [])
   \<and> (\<not> success res \<and> errorReason res \<noteq> Some invalid_transaction_state \<longrightarrow>
        transaction res = [] \<and> submissions (fst (settle w pp req)) = [])
   \<and> (\<not> success res \<and> transaction res \<noteq> [] \<longrightarrow>
        errorReason res = Some invalid_transaction_state
        \<and> map (writeContract w) (submissions (fst (settle w pp req))) = [Inr (transaction res)]
        \<and> waitForTransactionReceipt w (transaction res) = Inr Reverted)"
  proof
    assume "\<exists>r. res = failure pp r [] \<and> fst (settleAfterVerify w pp req valid)
      \<in> {[], [GetCode (auth_from (authorization (payload pp)))]}"
    then show ?thesis
      by (auto simp: l failure_def submissions_simps)
  next
    assume "snd (submitAndWait w pp req) = Inr res
        \<and> submissions (fst (settleAfterVerify w pp req valid))
            = submissions (fst (submitAndWait w pp req))"
    then show ?thesis
      using submitAndWait_result[of w pp req res] by (auto simp: l)
  qed
qed


lemma mock_settle_results:
  "snd (settle (createMockWallet None) (createMockPayload 130 mockAuthorization)
        mockPaymentRequirements)
     = Inr \<lparr>success = True, errorReason = None, transaction = ''0xtxhash'',
            settle_network = ''base-sepolia'',
            settle_payer = ''0xabcdef1234567890123456789012345678901234''\<rparr>"
  "snd (settle (createMockWallet None\<lparr>waitForTransactionReceipt := \<lambda>h. Inr Reverted\<rparr>)
        (createMockPayload 130 mockAuthorization) mockPaymentRequirements)
     = Inr \<lparr>success = False, errorReason = Some invalid_transaction_state,
            transaction = ''0xtxhash'', settle_network = ''base-sepolia'',
            settle_payer = ''0xabcdef1234567890123456789012345678901234''\<rparr>"
  "snd (settle (createMockWallet None) (createMockPayload 200 mockAuthorization)
        mockPaymentRequirements)
     = Inr \<lparr>success = False,
            errorReason = Some invalid_exact_evm_payload_undeployed_smart_wallet,
            transaction = [], settle_network = ''base-sepolia'',
            settle_payer = ''0xabcdef1234567890123456789012345678901234''\<rparr>"
  by code_simp+

text \<open>
  The mocked wallet: a successful settlement carries the hash \<^verbatim>\<open>0xtxhash\<close> of its one
  call; with a reverted receipt the failure carries the same hash; the undeployed wallet
  fails with nothing submitted.
\<close>

theorem settle_result_shape_witness:
  "map (writeContract (createMockWallet None))
       (submissions (fst (settle (createMockWallet None)
          (createMockPayload 130 mockAuthorization) mockPaymentRequirements)))
     = [Inr ''0xtxhash'']
   \<and> map (writeContract (createMockWallet None\<lparr>waitForTransactionReceipt := \<lambda>h. Inr Reverted\<rparr>))
       (submissions (fst (settle
          (createMockWallet None\<lparr>waitForTransactionReceipt := \<lambda>h. Inr Reverted\<rparr>)
          (createMockPayload 130 mockAuthorization) mockPaymentRequirements)))
     = [Inr ''0xtxhash'']
   \<and> submissions (fst (settle (createMockWallet None)
          (createMockPayload 200 mockAuthorization) mockPaymentRequirements)) = []"
proof -
  let ?ok = "\<lparr>success = True, errorReason = None, transaction = ''0xtxhash'',
            settle_network = ''base-sepolia'',
            settle_payer = ''0xabcdef1234567890123456789012345678901234''\<rparr>"
  let ?reverted = "\<lparr>success = False, errorReason = Some invalid_transaction_state,
            transaction = ''0xtxhash'', settle_network = ''base-sepolia'',
            settle_payer = ''0xabcdef1234567890123456789012345678901234''\<rparr>"
  let ?undeployed = "\<lparr>success = False,
            errorReason = Some invalid_exact_evm_payload_undeployed_smart_wallet,
            transaction = [], settle_network = ''base-sepolia'',
            settle_payer = ''0xabcdef1234567890123456789012345678901234''\<rparr>"
  have 1: "map (writeContract (createMockWallet None))
       (submissions (fst (settle (createMockWallet None)
          (createMockPayload 130 mockAuthorization) mockPaymentRequirements)))
     = [Inr ''0xtxhash'']"
    using mock_settle_results(1)
      settle_result_shape[of "createMockWallet None" "createMockPayload 130 mockAuthorization"
        mockPaymentRequirements ?ok]
    by simp
  have 2: "map (writeContract (createMockWallet None\<lparr>waitForTransactionReceipt := \<lambda>h. Inr Reverted\<rparr>))
       (submissions (fst (settle
          (createMockWallet None\<lparr>waitForTransactionReceipt := \<lambda>h. Inr Reverted\<rparr>)
          (createMockPayload 130 mockAuthorization) mockPaymentRequirements)))
     = [Inr ''0xtxhash'']"
    using mock_settle_results(2)
      settle_result_shape[of
        "createMockWallet None\<lparr>waitForTransactionReceipt := \<lambda>h. Inr Reverted\<rparr>"
        "createMockPayload 130 mockAuthorization" mockPaymentRequirements ?reverted]
    by simp
  have 3: "submissions (fst (settle (createMockWallet None)
          (createMockPayload 200 mockAuthorization) mockPaymentRequirements)) = []"
    using mock_settle_results(3)
      settle_result_shape[of "createMockWallet None" "createMockPayload 200 mockAuthorization"
        mockPaymentRequirements ?undeployed]
    by simp
  from 1 2 3 show ?thesis by simp
qed

end
